theory Spec2Isabelle
  imports Complex_Main "HOL-Library.Char_ord" "HOL-Library.List_Lexorder"
begin

section \<open>Pattern validation results (scripts/pattern\_validator.py)\<close>

text \<open>
  The dataclass \<open>ValidationResult\<close>. A Python float is given by the real number it
  denotes (a finite double; infinities and NaN are left out); the \<open>details\<close> dictionary
  holds diagnostics only and is kept as rendered text.
\<close>

record validation_result =
  pattern :: string
  source :: string
  stage :: string
  passed :: bool
  score :: real
  details :: "(string \<times> string) list"
  duration_ms :: real
  timestamp :: real

text \<open>A Python dict with string keys, in insertion order.\<close>

type_synonym 'v pydict = "(string \<times> 'v) list"

section \<open>Python exceptions\<close>

datatype py_error = IndexError | KeyError | TypeError | OSError

section \<open>The pattern ledger (scripts/pattern\_version\_control.py)\<close>

text \<open>
  The \<open>changes\<close> dictionary of a commit has one of three shapes, told apart by its
  \<open>type\<close> entry.
\<close>

datatype change_info =
    ChangeInitial
  | ChangeUpdate (patterns_added: nat) (patterns_removed: nat) (sources_modified: "string list")
  | ChangeRollback (rollback_target: string) (rollback_reason: string)

record pattern_commit =
  commit_id :: string
  parent_id :: "string option"
  c_timestamp :: real
  author :: string
  message :: string
  changes :: change_info
  pattern_snapshot :: "string list pydict"
  validation_results :: "validation_result pydict pydict option"
  rollback_safe :: bool
  branch :: string

record system_metrics =
  m_timestamp :: real
  m_pattern_count :: nat
  m_memory_usage :: string
  m_detection_speed :: string

record rollback_point =
  rollback_id :: string
  rp_commit_id :: "string option"
  rp_timestamp :: real
  rp_reason :: string
  rp_system_metrics :: system_metrics
  automatic :: bool

record branch_data =
  b_name :: string
  b_created :: real
  b_head_commit :: "string option"
  b_parent_branch :: "string option"
  b_last_updated :: "real option"

text \<open>
  The repository: the three directories of JSON files (each a map from the file's stem to
  its content) and the two attributes \<open>current_branch\<close> and \<open>head_commit\<close> of the
  \<open>PatternVersionControl\<close> object.
\<close>

record vcs =
  commits :: "string \<rightharpoonup> pattern_commit"
  branches :: "string \<rightharpoonup> branch_data"
  rollbacks :: "string \<rightharpoonup> rollback_point"
  current_branch :: string
  head_commit :: "string option"

text \<open>
  \<open>_load_commit\<close> builds the path \<open>commits_dir / "<id>.json"\<close> from any string it is
  given. For an identifier under which a commit is stored, that file is the commit
  record. For any other identifier, what the file system answers is not part of the
  repository's commit store: a \<open>file_system\<close> gives the exception that examining or
  parsing the path raises (\<open>OSError\<close> for a path that cannot be examined, such as an
  over-long name; \<open>TypeError\<close> from \<open>PatternCommit(**commit_data)\<close> when the path names
  a JSON file that is not a commit record, such as \<open>../branches/main\<close>), and \<open>None\<close>
  when there is no file at the path.
\<close>

type_synonym file_system = "string \<Rightarrow> py_error option"

text \<open>
  What one call of \<open>rollback_to_commit\<close> reads from outside the repository: the two
  identifiers drawn by \<open>_generate_commit_id\<close> (SHA-256 hex digests of the clock and a
  fresh UUID), the clock readings, in the order in which the call takes them, and the
  file system's answers as they are when the call is made.
\<close>

record rollback_env =
  new_rollback_id :: string
  t_rollback :: real
  t_metrics :: real
  new_commit_id :: string
  t_commit :: real
  t_branch :: real
  unreadable :: file_system

definition load_commit :: "file_system \<Rightarrow> vcs \<Rightarrow> string \<Rightarrow> py_error + pattern_commit option" where
  "load_commit fs s cid =
     (case commits s cid of
        Some c \<Rightarrow> Inr (Some c)
      | None \<Rightarrow> (case fs cid of Some err \<Rightarrow> Inl err | None \<Rightarrow> Inr None))"

definition save_commit :: "pattern_commit \<Rightarrow> vcs \<Rightarrow> vcs" where
  "save_commit c s = s\<lparr>commits := (commits s)(commit_id c \<mapsto> c)\<rparr>"

text \<open>Python truthiness of an \<open>Optional[str]\<close>: \<open>None\<close> and the empty string are false.\<close>

fun truthy :: "string option \<Rightarrow> bool" where
  "truthy None = False"
| "truthy (Some x) = (x \<noteq> [])"

definition update_branch_head :: "string \<Rightarrow> string \<Rightarrow> real \<Rightarrow> vcs \<Rightarrow> vcs" where
  "update_branch_head b cid now s =
     (let branch_data =
            (case branches s b of
               Some d \<Rightarrow> d
             | None \<Rightarrow> \<lparr>b_name = b, b_created = now, b_head_commit = None,
                        b_parent_branch = None, b_last_updated = None\<rparr>)
      in s\<lparr>branches := (branches s)(b \<mapsto>
              branch_data\<lparr>b_head_commit := Some cid, b_last_updated := Some now\<rparr>)\<rparr>)"

definition get_current_patterns :: "file_system \<Rightarrow> vcs \<Rightarrow> py_error + string list pydict" where
  "get_current_patterns fs s =
     (if \<not> truthy (head_commit s) then Inr []
      else case load_commit fs s (the (head_commit s)) of
             Inl err \<Rightarrow> Inl err
           | Inr (Some current_commit) \<Rightarrow> Inr (pattern_snapshot current_commit)
           | Inr None \<Rightarrow> Inr [])"

definition get_total_pattern_count :: "file_system \<Rightarrow> vcs \<Rightarrow> py_error + nat" where
  "get_total_pattern_count fs s =
     (case get_current_patterns fs s of
        Inl err \<Rightarrow> Inl err
      | Inr current_patterns \<Rightarrow>
          Inr (sum_list (map (\<lambda>(k, patterns). length patterns) current_patterns)))"

definition get_system_metrics :: "file_system \<Rightarrow> vcs \<Rightarrow> real \<Rightarrow> py_error + system_metrics" where
  "get_system_metrics fs s now =
     (case get_total_pattern_count fs s of
        Inl err \<Rightarrow> Inl err
      | Inr n \<Rightarrow>
          Inr \<lparr>m_timestamp = now, m_pattern_count = n,
               m_memory_usage = ''simulated'', m_detection_speed = ''simulated''\<rparr>)"

definition save_rollback_point :: "rollback_point \<Rightarrow> vcs \<Rightarrow> vcs" where
  "save_rollback_point rp s = s\<lparr>rollbacks := (rollbacks s)(rollback_id rp \<mapsto> rp)\<rparr>"

text \<open>
  \<open>rollback_to_commit\<close> has no \<open>try\<close>: an exception raised while the target or the head
  commit is loaded leaves the call, and it does so before anything is written.
\<close>

definition rollback_to_commit ::
  "vcs \<Rightarrow> string \<Rightarrow> string \<Rightarrow> rollback_env \<Rightarrow> py_error + (bool \<times> vcs)" where
  "rollback_to_commit s cid reason e =
     (case load_commit (unreadable e) s cid of
        Inl err \<Rightarrow> Inl err
      | Inr None \<Rightarrow> Inr (False, s)
      | Inr (Some target_commit) \<Rightarrow>
          (case get_system_metrics (unreadable e) s (t_metrics e) of
             Inl err \<Rightarrow> Inl err
           | Inr metrics \<Rightarrow>
               (let rp = \<lparr>rollback_id = new_rollback_id e, rp_commit_id = head_commit s,
                          rp_timestamp = t_rollback e, rp_reason = reason,
                          rp_system_metrics = metrics, automatic = False\<rparr>;
                    s1 = save_rollback_point rp s;
                    rollback_commit =
                      \<lparr>commit_id = new_commit_id e, parent_id = head_commit s1,
                       c_timestamp = t_commit e, author = ''rollback-system'',
                       message = ''Rollback to '' @ take 8 cid @ '': '' @ reason,
                       changes = ChangeRollback cid reason,
                       pattern_snapshot = pattern_snapshot target_commit,
                       validation_results = None, rollback_safe = True,
                       branch = current_branch s1\<rparr>;
                    s2 = save_commit rollback_commit s1;
                    s3 = update_branch_head (current_branch s2) (commit_id rollback_commit)
                           (t_branch e) s2
                in Inr (True, s3\<lparr>head_commit := Some (commit_id rollback_commit)\<rparr>))))"

text \<open>
  The loop of \<open>get_commit_history\<close>: it appends one commit per round and stops when the
  current identifier is false, when the commit is not stored, or when \<open>limit\<close> commits
  are collected, so it runs at most \<open>limit\<close> rounds. An exception raised by a load
  leaves the function.
\<close>

fun history_loop :: "file_system \<Rightarrow> vcs \<Rightarrow> string option \<Rightarrow> nat \<Rightarrow> py_error + pattern_commit list" where
  "history_loop fs s current_commit_id 0 = Inr []"
| "history_loop fs s current_commit_id (Suc n) =
     (if \<not> truthy current_commit_id then Inr []
      else case load_commit fs s (the current_commit_id) of
             Inl err \<Rightarrow> Inl err
           | Inr None \<Rightarrow> Inr []
           | Inr (Some c) \<Rightarrow>
               (case history_loop fs s (parent_id c) n of
                  Inl err \<Rightarrow> Inl err
                | Inr rest \<Rightarrow> Inr (c # rest)))"

definition get_commit_history :: "file_system \<Rightarrow> vcs \<Rightarrow> int \<Rightarrow> py_error + pattern_commit list" where
  "get_commit_history fs s limit = history_loop fs s (head_commit s) (nat limit)"

section \<open>The validator's stage pipeline (scripts/pattern\_validator.py)\<close>

text \<open>
  The four stage functions compile regular expressions and measure running times, so
  their verdicts come from outside the model: a validator is given by the result each
  stage returns for a pattern and a source name.
\<close>

record validator =
  validate_syntax :: "string \<Rightarrow> string \<Rightarrow> validation_result"
  validate_performance :: "string \<Rightarrow> string \<Rightarrow> validation_result"
  validate_false_positives :: "string \<Rightarrow> string \<Rightarrow> validation_result"
  validate_community_score :: "string \<Rightarrow> string \<Rightarrow> validation_result"

text \<open>
  \<open>validate_pattern_comprehensive\<close> returns the dict \<open>results\<close>; the second component
  lists the stage functions the call has run, in the order of the calls.
\<close>

definition validate_pattern_comprehensive ::
  "validator \<Rightarrow> string \<Rightarrow> string \<Rightarrow> validation_result pydict \<times> string list" where
  "validate_pattern_comprehensive v pat src =
     (let syntax_result = validate_syntax v pat src;
          results = [(''syntax'', syntax_result)]
      in if \<not> passed syntax_result then (results, [''syntax''])
         else
           (let performance_result = validate_performance v pat src;
                results = results @ [(''performance'', performance_result)];
                fp_result = validate_false_positives v pat src;
                results = results @ [(''false_positive'', fp_result)];
                community_result = validate_community_score v pat src;
                results = results @ [(''community'', community_result)]
            in (results, [''syntax'', ''performance'', ''false_positive'', ''community''])))"

section \<open>Python string operations\<close>

text \<open>
  Strings are read as ASCII text: \<open>lower\<close>, \<open>strip\<close> and \<open>splitlines\<close> act on the
  ASCII letters, white space and line boundaries.
\<close>

definition py_index :: "'a list \<Rightarrow> nat \<Rightarrow> py_error + 'a" where
  "py_index xs i = (if i < length xs then Inr (xs ! i) else Inl IndexError)"

definition starts_with :: "string \<Rightarrow> string \<Rightarrow> bool" where
  "starts_with s p = (take (length p) s = p)"

text \<open>The operator \<open>sep in s\<close> on strings.\<close>

fun contains :: "string \<Rightarrow> string \<Rightarrow> bool" where
  "contains sep [] = (sep = [])"
| "contains sep (c # cs) = (starts_with (c # cs) sep \<or> contains sep cs)"

text \<open>The text before and after the first occurrence of \<open>sep\<close>, if there is one.\<close>

fun py_partition :: "string \<Rightarrow> string \<Rightarrow> (string \<times> string) option" where
  "py_partition sep [] = (if sep = [] then Some ([], []) else None)"
| "py_partition sep (c # cs) =
     (if starts_with (c # cs) sep then Some ([], drop (length sep) (c # cs))
      else map_option (\<lambda>(a, b). (c # a, b)) (py_partition sep cs))"

text \<open>\<open>s.split(sep, 1)\<close> for a non-empty separator.\<close>

definition split1 :: "string \<Rightarrow> string \<Rightarrow> string list" where
  "split1 sep s = (case py_partition sep s of None \<Rightarrow> [s] | Some (a, b) \<Rightarrow> [a, b])"

definition lower_char :: "char \<Rightarrow> char" where
  "lower_char c =
     (let n = (of_char c :: nat) in if 65 \<le> n \<and> n \<le> 90 then char_of (n + 32) else c)"

definition lower :: "string \<Rightarrow> string" where
  "lower s = map lower_char s"

definition isspace :: "char \<Rightarrow> bool" where
  "isspace c = (let n = (of_char c :: nat) in n = 32 \<or> (9 \<le> n \<and> n \<le> 13) \<or> (28 \<le> n \<and> n \<le> 31))"

definition strip :: "string \<Rightarrow> string" where
  "strip s = rev (dropWhile isspace (rev (dropWhile isspace s)))"

definition is_linebreak :: "char \<Rightarrow> bool" where
  "is_linebreak c = (let n = (of_char c :: nat) in (10 \<le> n \<and> n \<le> 13) \<or> (28 \<le> n \<and> n \<le> 30))"

text \<open>
  \<open>splitlines_from cur s\<close>: the lines of \<open>s\<close>, where \<open>cur\<close> is the part of the current
  line already read. A carriage return followed by a line feed is one boundary; text
  after the last boundary is a line only if it is not empty.
\<close>

fun splitlines_from :: "string \<Rightarrow> string \<Rightarrow> string list" where
  "splitlines_from cur [] = (if cur = [] then [] else [cur])"
| "splitlines_from cur (c # cs) =
     (if c = CHR 0x0D then
        (case cs of
           [] \<Rightarrow> [cur]
         | d # ds \<Rightarrow> if d = CHR 0x0A then cur # splitlines_from [] ds
                     else cur # splitlines_from [] (d # ds))
      else if is_linebreak c then cur # splitlines_from [] cs
      else splitlines_from (cur @ [c]) cs)"

definition splitlines :: "string \<Rightarrow> string list" where
  "splitlines s = splitlines_from [] s"

section \<open>Change detection (scripts/realtime\_github\_sync.py)\<close>

record github_source =
  gs_name :: string
  url :: string
  api_url :: string
  description :: string
  poll_interval :: int
  priority :: string
  etag :: "string option"
  last_modified :: "string option"
  last_check :: "real option"
  last_commit_sha :: "string option"

text \<open>The \<open>changes\<close> dictionary of a \<open>ChangeEvent\<close>; \<open>_detect_changes\<close> fills all five keys.\<close>

record change_dict =
  added_patterns :: nat
  removed_patterns :: nat
  added_lines :: "string list"
  removed_lines :: "string list"
  total_lines :: nat

record change_event =
  source_name :: string
  change_type :: string
  ev_timestamp :: real
  commit_sha :: string
  ev_changes :: change_dict
  validation_required :: bool

text \<open>
  What \<open>_detect_changes\<close> reads from outside: the clock, the SHA-256 hex digest, and the
  order in which Python iterates over a set of strings when \<open>list(...)\<close> copies it (the
  language leaves that order open).
\<close>

record detect_env =
  now :: real
  sha256_hex :: "string \<Rightarrow> string"
  set_iter :: "string set \<Rightarrow> string list"

text \<open>A set iteration visits every element of a finite set exactly once.\<close>

definition iterates_sets :: "(string set \<Rightarrow> string list) \<Rightarrow> bool" where
  "iterates_sets it = (\<forall>S. finite S \<longrightarrow> set (it S) = S \<and> distinct (it S))"

definition detect_changes ::
  "detect_env \<Rightarrow> github_source \<Rightarrow> string option \<Rightarrow> string \<Rightarrow> change_event option" where
  "detect_changes e src old_content new_content =
     (if old_content = Some new_content then None
      else
        (let content_hash = take 16 (sha256_hex e new_content);
             old_lines = (if truthy old_content then set (splitlines (the old_content)) else {});
             new_lines = set (splitlines new_content);
             added = new_lines - old_lines;
             removed = old_lines - new_lines
         in if added = {} \<and> removed = {} then None
            else Some
              \<lparr>source_name = gs_name src,
               change_type = ''modified'',
               ev_timestamp = now e,
               commit_sha = (if truthy (last_commit_sha src) then the (last_commit_sha src)
                             else content_hash),
               ev_changes =
                 \<lparr>added_patterns = card added,
                  removed_patterns = card removed,
                  added_lines = take 10 (set_iter e added),
                  removed_lines = take 10 (set_iter e removed),
                  total_lines = card new_lines\<rparr>,
               validation_required = True\<rparr>))"

text \<open>
  The answer of the commits API as \<open>_check_for_commits\<close> sees it: nothing usable
  (\<open>None\<close> or empty JSON), a list whose first entry carries a \<open>sha\<close>, or any other
  non-empty JSON, on which the subscripts raise.
\<close>

datatype api_data = ApiNone | ApiLatest string | ApiOther

definition check_for_commits :: "github_source \<Rightarrow> api_data \<Rightarrow> py_error + (string option \<times> github_source)" where
  "check_for_commits src api =
     (case api of
        ApiNone \<Rightarrow> Inr (None, src)
      | ApiOther \<Rightarrow> Inl KeyError
      | ApiLatest latest_sha \<Rightarrow>
          if truthy (last_commit_sha src) \<and> last_commit_sha src = Some latest_sha
          then Inr (None, src)
          else Inr (Some latest_sha, src\<lparr>last_commit_sha := Some latest_sha\<rparr>))"

text \<open>
  The answer to the content request: status 304, status 200 with the body, the two
  headers and the time of receipt, any other status, or a failed request.
\<close>

datatype fetch_response =
    NotModified
  | Ok200 string "string option" "string option" real
  | OtherStatus
  | RequestFailed

definition fetch_with_etag ::
  "github_source \<Rightarrow> fetch_response \<Rightarrow> (string option \<times> string option \<times> bool) \<times> github_source" where
  "fetch_with_etag src resp =
     (case resp of
        Ok200 content et lm t \<Rightarrow>
          ((Some content, et, True), src\<lparr>etag := et, last_modified := lm, last_check := Some t\<rparr>)
      | _ \<Rightarrow> ((None, None, False), src))"

text \<open>
  The monitor: the cache files (by source name), the outbound queue of change events,
  and the record of the writes and queue insertions made so far, oldest first.
\<close>

datatype effect = CacheWrite string string | QueuePut change_event

record monitor =
  cache :: "string \<rightharpoonup> string"
  change_queue :: "change_event list"
  effects :: "effect list"

definition write_cache :: "string \<Rightarrow> string \<Rightarrow> monitor \<Rightarrow> monitor" where
  "write_cache nm content m =
     m\<lparr>cache := (cache m)(nm \<mapsto> content), effects := effects m @ [CacheWrite nm content]\<rparr>"

definition queue_put :: "change_event \<Rightarrow> monitor \<Rightarrow> monitor" where
  "queue_put ev m = m\<lparr>change_queue := change_queue m @ [ev], effects := effects m @ [QueuePut ev]\<rparr>"

text \<open>
  One poll of one source. An exception raised by the commit check leaves the body of the
  \<open>try\<close> at once and is only logged.
\<close>

definition monitor_source ::
  "detect_env \<Rightarrow> api_data \<Rightarrow> fetch_response \<Rightarrow> github_source \<Rightarrow> monitor \<Rightarrow> github_source \<times> monitor" where
  "monitor_source e api resp src m =
     (case check_for_commits src api of
        Inl err \<Rightarrow> (src, m)
      | Inr (new_commit_sha, src1) \<Rightarrow>
          (let old_content = cache m (gs_name src1);
               ((new_content, et, content_changed), src2) = fetch_with_etag src1 resp
           in if content_changed \<and> truthy new_content then
                (case detect_changes e src2 old_content (the new_content) of
                   Some change_event \<Rightarrow>
                     (src2, queue_put change_event (write_cache (gs_name src2) (the new_content) m))
                 | None \<Rightarrow> (src2, m))
              else (src2, m)))"

definition get_pending_changes :: "monitor \<Rightarrow> change_event list \<times> monitor" where
  "get_pending_changes m = (change_queue m, m\<lparr>change_queue := []\<rparr>)"

section \<open>The orchestrator's validation stage (scripts/auto\_update\_orchestrator.py)\<close>

definition extract_patterns_from_change :: "change_event \<Rightarrow> (string \<times> string) list" where
  "extract_patterns_from_change change =
     take 20
       (map (\<lambda>line. (strip line, source_name change))
          (filter (\<lambda>line. strip line \<noteq> [] \<and> \<not> starts_with line ''!'' \<and> \<not> starts_with line ''#'')
             (added_lines (ev_changes change))))"

text \<open>
  Double-precision arithmetic. \<open>rne\<close> rounds a real to the nearest integer, ties to the
  even one. \<open>expo x\<close> is the binary exponent of \<open>x\<close>, not below that of the smallest
  normal number, and \<open>ulp x\<close> the spacing of the doubles around \<open>x\<close>. \<open>round_double x\<close>
  is the double nearest to \<open>x\<close>, as long as \<open>x\<close> is below the overflow threshold
  \<open>2 ^ 1024\<close>. Python's \<open>+\<close> and \<open>/\<close> on floats, its true division of integers and its
  reading of a decimal literal all return the double nearest to the exact result.
\<close>

definition rne :: "real \<Rightarrow> int" where
  "rne t =
     (let f = \<lfloor>t\<rfloor>; r = t - of_int f
      in if r < 1 / 2 then f else if 1 / 2 < r then f + 1 else if even f then f else f + 1)"

definition expo :: "real \<Rightarrow> int" where
  "expo x = max \<lfloor>log 2 \<bar>x\<bar>\<rfloor> (- 1022)"

definition ulp :: "real \<Rightarrow> real" where
  "ulp x = 2 powr of_int (expo x - 52)"

definition round_double :: "real \<Rightarrow> real" where
  "round_double x = (if x = 0 then 0 else sgn x * of_int (rne (\<bar>x\<bar> / ulp x)) * ulp x)"

definition fadd :: "real \<Rightarrow> real \<Rightarrow> real" where
  "fadd x y = round_double (x + y)"

definition fdiv :: "real \<Rightarrow> real \<Rightarrow> real" where
  "fdiv x y = round_double (x / y)"

text \<open>
  The nested iteration of \<open>_validation_passed\<close> over patterns and stages, on (total
  score, total count, failed count). The total score starts as the integer 0 and is a
  float from the first addition on.
\<close>

fun stage_loop :: "validation_result pydict \<Rightarrow> real \<times> nat \<times> nat \<Rightarrow> real \<times> nat \<times> nat" where
  "stage_loop [] acc = acc"
| "stage_loop ((stage_key, result) # rest) (total_score, total_count, failed_count) =
     stage_loop rest
       (fadd total_score (score result), total_count + 1,
        if \<not> passed result then failed_count + 1 else failed_count)"

fun pattern_loop :: "validation_result pydict pydict \<Rightarrow> real \<times> nat \<times> nat \<Rightarrow> real \<times> nat \<times> nat" where
  "pattern_loop [] acc = acc"
| "pattern_loop ((pattern_key, pattern_results) # rest) acc =
     pattern_loop rest (stage_loop pattern_results acc)"

definition validation_passed :: "validation_result pydict pydict \<Rightarrow> bool" where
  "validation_passed vr =
     (if vr = [] then False
      else
        (let (total_score, total_count, failed_count) = pattern_loop vr (0, 0, 0)
         in if total_count = 0 then False
            else
              (let avg_score = fdiv total_score (real total_count);
                   failure_rate = round_double (real failed_count / real total_count)
               in avg_score > round_double (7 / 10) \<and> failure_rate < round_double (1 / 5))))"

record auto_update_config =
  enabled :: bool
  validation_enabled :: bool
  auto_rollback :: bool
  max_rollback_attempts :: int
  performance_threshold :: real
  false_positive_threshold :: real
  health_check_interval :: int
  pattern_refresh_interval :: int
  emergency_stop :: bool

text \<open>
  The queues between the workers and the log of rejected changes. Only
  \<open>_change_processor\<close> and \<open>_validation_processor\<close> put anything on the update queue.
\<close>

record orchestrator =
  validation_queue :: "change_event list"
  update_queue :: "(change_event \<times> validation_result pydict pydict option) list"
  validation_failures :: "(change_event \<times> validation_result pydict pydict) list"

text \<open>
  One round of \<open>_change_processor\<close> on the changes returned by \<open>get_pending_changes\<close>.
\<close>

fun change_round :: "auto_update_config \<Rightarrow> change_event list \<Rightarrow> orchestrator \<Rightarrow> orchestrator" where
  "change_round cfg [] st = st"
| "change_round cfg (change # rest) st =
     (if emergency_stop cfg then change_round cfg rest st
      else if validation_enabled cfg
      then change_round cfg rest (st\<lparr>validation_queue := validation_queue st @ [change]\<rparr>)
      else change_round cfg rest (st\<lparr>update_queue := update_queue st @ [(change, None)]\<rparr>))"

text \<open>
  One round of \<open>_validation_processor\<close> on a change taken from the validation queue. The
  batch validation runs on a thread pool; its result dict is given by \<open>batch\<close>.
\<close>

definition validation_round ::
  "((string \<times> string) list \<Rightarrow> validation_result pydict pydict) \<Rightarrow> change_event \<Rightarrow> orchestrator \<Rightarrow> orchestrator" where
  "validation_round batch change st =
     (let patterns_to_validate = extract_patterns_from_change change
      in if patterns_to_validate = [] then st
         else
           (let results = batch patterns_to_validate
            in if validation_passed results
               then st\<lparr>update_queue := update_queue st @ [(change, Some results)]\<rparr>
               else st\<lparr>validation_failures := validation_failures st @ [(change, results)]\<rparr>))"

section \<open>Domain lookup (scripts/optimized\_pattern\_engine.py)\<close>

record sub_pattern =
  sp_pattern :: string
  regex_pattern :: string
  sp_confidence :: string

record index_entry =
  threat_level :: string
  entry_source :: string
  patterns :: "sub_pattern list"
  confidence :: string

record engine_stats =
  domains_indexed :: nat
  patterns_cached :: nat
  cache_hits :: nat
  cache_misses :: nat
  total_lookups :: nat

record engine =
  domain_index :: "string \<rightharpoonup> index_entry"
  stats :: engine_stats

text \<open>
  The body of \<open>_extract_domain_from_url\<close> inside its \<open>try\<close>, with the subscripts that
  can raise; the function itself turns any exception into the empty string.
\<close>

definition extract_domain_body :: "string \<Rightarrow> py_error + string" where
  "extract_domain_body u =
     (case (if contains ''://'' u then py_index (split1 ''://'' u) 1 else Inr u) of
        Inl err \<Rightarrow> Inl err
      | Inr u1 \<Rightarrow>
          (case (if contains ''/'' u1 then py_index (split1 ''/'' u1) 0 else Inr u1) of
             Inl err \<Rightarrow> Inl err
           | Inr u2 \<Rightarrow> Inr (lower u2)))"

definition extract_domain_from_url :: "string \<Rightarrow> string" where
  "extract_domain_from_url u = (case extract_domain_body u of Inl err \<Rightarrow> [] | Inr d \<Rightarrow> d)"

definition extract_base_domain :: "string \<Rightarrow> py_error + string" where
  "extract_base_domain dom0 =
     (let d = strip (lower dom0);
          d = (if starts_with d ''www.'' then drop 4 d else d)
      in case (if contains ''://'' d then py_index (split1 ''://'' d) 1 else Inr d) of
           Inl err \<Rightarrow> Inl err
         | Inr d1 \<Rightarrow> (if contains ''/'' d1 then py_index (split1 ''/'' d1) 0 else Inr d1))"

definition fast_domain_lookup :: "engine \<Rightarrow> string \<Rightarrow> py_error + (index_entry option \<times> engine)" where
  "fast_domain_lookup eng u =
     (let eng1 = eng\<lparr>stats := (stats eng)\<lparr>total_lookups := total_lookups (stats eng) + 1\<rparr>\<rparr>;
          dom0 = extract_domain_from_url u
      in if dom0 = [] then Inr (None, eng1)
         else
           (case extract_base_domain dom0 of
              Inl err \<Rightarrow> Inl err
            | Inr base_domain \<Rightarrow>
                (case domain_index eng1 base_domain of
                   Some entry \<Rightarrow>
                     Inr (Some entry,
                          eng1\<lparr>stats := (stats eng1)\<lparr>cache_hits := cache_hits (stats eng1) + 1\<rparr>\<rparr>)
                 | None \<Rightarrow>
                     Inr (None,
                          eng1\<lparr>stats := (stats eng1)\<lparr>cache_misses := cache_misses (stats eng1) + 1\<rparr>\<rparr>))))"

section \<open>Notions used in the statements\<close>

text \<open>
  All stage results of a batch in the order of iteration, the results with
  \<open>passed = false\<close>, the sum of a list of floats taken from left to right, and the mean
  score and the failure rate as \<open>_validation_passed\<close> computes them.
\<close>

definition stage_results :: "validation_result pydict pydict \<Rightarrow> validation_result list" where
  "stage_results vr = map snd (concat (map snd vr))"

definition failed_results :: "validation_result list \<Rightarrow> validation_result list" where
  "failed_results rs = filter (\<lambda>r. \<not> passed r) rs"

definition float_sum :: "real list \<Rightarrow> real" where
  "float_sum xs = foldl fadd 0 xs"

definition mean_score :: "validation_result list \<Rightarrow> real" where
  "mean_score rs = fdiv (float_sum (map score rs)) (real (length rs))"

definition failure_rate :: "validation_result list \<Rightarrow> real" where
  "failure_rate rs = round_double (real (length (failed_results rs)) / real (length rs))"

section \<open>Example values\<close>

definition example_commit :: "string \<Rightarrow> string option \<Rightarrow> string list pydict \<Rightarrow> pattern_commit" where
  "example_commit cid par snap =
     \<lparr>commit_id = cid, parent_id = par, c_timestamp = 0, author = ''auto-update'',
      message = ''update'', changes = ChangeUpdate 0 0 [], pattern_snapshot = snap,
      validation_results = None, rollback_safe = True, branch = ''main''\<rparr>"

definition example_vcs :: vcs where
  "example_vcs =
     \<lparr>commits = [''c0'' \<mapsto> example_commit ''c0'' None [],
                 ''c1'' \<mapsto> example_commit ''c1'' (Some ''c0'') [(''s'', [''p1''])],
                 ''c2'' \<mapsto> example_commit ''c2'' (Some ''c1'') [(''s'', [''p1'', ''p2''])]],
      branches = [''main'' \<mapsto> \<lparr>b_name = ''main'', b_created = 0, b_head_commit = Some ''c2'',
                                b_parent_branch = None, b_last_updated = None\<rparr>],
      rollbacks = Map.empty,
      current_branch = ''main'',
      head_commit = Some ''c2''\<rparr>"

text \<open>
  The example repository has the branch \<open>main\<close>, so the path built from the identifier
  \<open>../branches/main\<close> names the branch record, a JSON file that is not a commit record.
\<close>

definition example_env :: rollback_env where
  "example_env =
     \<lparr>new_rollback_id = ''r1'', t_rollback = 1, t_metrics = 1, new_commit_id = ''c3'',
      t_commit = 1, t_branch = 1,
      unreadable = (\<lambda>cid. if cid = ''../branches/main'' then Some TypeError else None)\<rparr>"

definition example_stage :: "string \<Rightarrow> string \<Rightarrow> string \<Rightarrow> string \<Rightarrow> string \<Rightarrow> validation_result" where
  "example_stage bad_stage bad_pat st pat src =
     \<lparr>pattern = pat, source = src, stage = st,
      passed = (\<not> (st = bad_stage \<and> pat = bad_pat)),
      score = (if st = bad_stage \<and> pat = bad_pat then 3 / 8 else 7 / 8),
      details = [], duration_ms = 1, timestamp = 0\<rparr>"

definition example_validator :: "string \<Rightarrow> string \<Rightarrow> validator" where
  "example_validator bad_stage bad_pat =
     \<lparr>validate_syntax = example_stage bad_stage bad_pat ''syntax'',
      validate_performance = example_stage bad_stage bad_pat ''performance'',
      validate_false_positives = example_stage bad_stage bad_pat ''false_positive'',
      validate_community_score = example_stage bad_stage bad_pat ''community''\<rparr>"

definition example_batch :: "validator \<Rightarrow> (string \<times> string) list \<Rightarrow> validation_result pydict pydict" where
  "example_batch v ps =
     map (\<lambda>(pat, src). (src @ '':'' @ take 50 pat, fst (validate_pattern_comprehensive v pat src))) ps"

definition example_change :: change_event where
  "example_change =
     \<lparr>source_name = ''X'', change_type = ''modified'', ev_timestamp = 0, commit_sha = ''abc'',
      ev_changes = \<lparr>added_patterns = 2, removed_patterns = 0,
                    added_lines = [''track.example.com'', ''static.example.org''],
                    removed_lines = [], total_lines = 2\<rparr>,
      validation_required = True\<rparr>"

definition example_detect_env :: detect_env where
  "example_detect_env =
     \<lparr>now = 0, sha256_hex = (\<lambda>s. ''0123456789abcdef0123456789abcdef''),
      set_iter = sorted_list_of_set\<rparr>"

definition example_source :: github_source where
  "example_source =
     \<lparr>gs_name = ''X'', url = ''https://example.org/list.txt'',
      api_url = ''https://api.example.org/commits'', description = ''example list'',
      poll_interval = 60, priority = ''high'', etag = None, last_modified = None,
      last_check = None, last_commit_sha = None\<rparr>"

definition example_monitor :: monitor where
  "example_monitor = \<lparr>cache = [''X'' \<mapsto> ''a\<newline>b''], change_queue = [], effects = []\<rparr>"

definition example_engine :: engine where
  "example_engine =
     \<lparr>domain_index =
        [''example.com'' \<mapsto>
           \<lparr>threat_level = ''critical'', entry_source = ''MailTracker'',
            patterns = [\<lparr>sp_pattern = ''example.com/track'', regex_pattern = '''',
                         sp_confidence = ''high''\<rparr>],
            confidence = ''high''\<rparr>],
      stats = \<lparr>domains_indexed = 1, patterns_cached = 0, cache_hits = 0, cache_misses = 0,
               total_lookups = 0\<rparr>\<rparr>"


definition example_config :: "bool \<Rightarrow> auto_update_config" where
  "example_config validate =
     \<lparr>enabled = True, validation_enabled = validate, auto_rollback = True,
      max_rollback_attempts = 3, performance_threshold = 2,
      false_positive_threshold = round_double (1 / 1000), health_check_interval = 300,
      pattern_refresh_interval = 3600, emergency_stop = False\<rparr>"

definition example_orchestrator :: orchestrator where
  "example_orchestrator = \<lparr>validation_queue = [], update_queue = [], validation_failures = []\<rparr>"

text \<open>A result that passed, with the given score.\<close>

definition example_passed :: "real \<Rightarrow> validation_result" where
  "example_passed sc =
     \<lparr>pattern = ''p'', source = ''X'', stage = ''syntax'', passed = True, score = sc,
      details = [], duration_ms = 1, timestamp = 0\<rparr>"

section \<open>Rollback\<close>

lemma load_commit_stored: "commits s cid = Some c \<Longrightarrow> load_commit fs s cid = Inr (Some c)"
  by (simp add: load_commit_def)

lemma metrics_available:
  assumes "head_commit s = Some h" and "commits s h = Some hc"
  shows "\<exists>m. get_system_metrics fs s t = Inr m"
  using assms
  by (auto simp: get_system_metrics_def get_total_pattern_count_def get_current_patterns_def
      load_commit_stored)

lemma rollback_present:
  assumes "commits s cid = Some tc"
    and "head_commit s = Some h"
    and "commits s h = Some hc"
  shows "\<exists>s' rc. rollback_to_commit s cid reason e = Inr (True, s')
           \<and> commits s' = (commits s)(new_commit_id e \<mapsto> rc)
           \<and> head_commit s' = Some (new_commit_id e)
           \<and> current_branch s' = current_branch s
           \<and> map_option b_head_commit (branches s' (current_branch s)) = Some (Some (new_commit_id e))
           \<and> pattern_snapshot rc = pattern_snapshot tc
           \<and> parent_id rc = head_commit s
           \<and> commit_id rc = new_commit_id e
           \<and> changes rc = ChangeRollback cid reason"
proof -
  from metrics_available[OF assms(2,3)] obtain m where
    m: "get_system_metrics (unreadable e) s (t_metrics e) = Inr m" by blast
  show ?thesis
    using assms(1)
    apply (simp add: rollback_to_commit_def load_commit_stored m Let_def save_commit_def
        save_rollback_point_def update_branch_head_def)
    apply (rule exI)
    apply (rule conjI, rule refl)
    apply simp
    done
qed

text \<open>
  C1 (rollback law). Let \<open>c0\<close>, \<open>c1\<close>, \<open>c2\<close> be a chain of stored commits ending at the
  head of the current branch, and let the identifier drawn for the rollback commit be a
  non-empty string not yet in use (it is a SHA-256 hex digest of the clock and a fresh
  UUID). Then \<open>rollback_to_commit\<close> on \<open>c0\<close> returns true and stores a new head commit
  whose snapshot is that of \<open>c0\<close> and whose parent is the head before the rollback; the
  branch pointer and \<open>head_commit\<close> name the new commit; \<open>c0\<close>, \<open>c1\<close>, \<open>c2\<close> and every
  other stored commit are still stored unchanged; and \<open>get_commit_history(1)\<close> returns
  exactly the new commit.
\<close>

theorem rollback_law:
  assumes c0: "commits s id0 = Some c0"
    and c1: "commits s id1 = Some c1"
    and c2: "commits s id2 = Some c2"
    and p1: "parent_id c1 = Some id0"
    and p2: "parent_id c2 = Some id1"
    and hd: "head_commit s = Some id2"
    and fresh: "commits s (new_commit_id e) = None"
    and nonempty: "new_commit_id e \<noteq> []"
  shows "\<exists>s' rc.
           rollback_to_commit s id0 reason e = Inr (True, s')
         \<and> commits s' (new_commit_id e) = Some rc
         \<and> head_commit s' = Some (new_commit_id e)
         \<and> map_option b_head_commit (branches s' (current_branch s')) = Some (Some (new_commit_id e))
         \<and> pattern_snapshot rc = pattern_snapshot c0
         \<and> parent_id rc = Some id2
         \<and> commits s' id0 = Some c0 \<and> commits s' id1 = Some c1 \<and> commits s' id2 = Some c2
         \<and> (\<forall>k c. commits s k = Some c \<longrightarrow> commits s' k = Some c)
         \<and> (\<forall>k c. commits s k = Some c \<longrightarrow> load_commit fs s' k = Inr (Some c))
         \<and> get_commit_history fs s' 1 = Inr [rc]"
proof -
  from rollback_present[OF c0 hd c2, of reason e] obtain s' rc where
    r: "rollback_to_commit s id0 reason e = Inr (True, s')"
    and cs: "commits s' = (commits s)(new_commit_id e \<mapsto> rc)"
    and h: "head_commit s' = Some (new_commit_id e)"
    and cb: "current_branch s' = current_branch s"
    and br: "map_option b_head_commit (branches s' (current_branch s)) = Some (Some (new_commit_id e))"
    and snap: "pattern_snapshot rc = pattern_snapshot c0"
    and par: "parent_id rc = head_commit s"
    by blast
  have keep: "\<And>k c. commits s k = Some c \<Longrightarrow> commits s' k = Some c"
    using cs fresh by auto
  have hist: "get_commit_history fs s' 1 = Inr [rc]"
    using cs h nonempty by (simp add: get_commit_history_def load_commit_def)
  show ?thesis
    using r cs h cb br snap par hd keep hist c0 c1 c2 by (auto simp: load_commit_stored)
qed

text \<open>
  The rollback law on a repository with the three commits \<open>c0\<close>, \<open>c1\<close>, \<open>c2\<close>.
\<close>

theorem rollback_law_witness:
  "\<exists>s' rc.
     rollback_to_commit example_vcs ''c0'' ''bad update'' example_env = Inr (True, s')
   \<and> commits s' ''c3'' = Some rc
   \<and> head_commit s' = Some ''c3''
   \<and> pattern_snapshot rc = []
   \<and> parent_id rc = Some ''c2''
   \<and> commits s' ''c0'' = Some (example_commit ''c0'' None [])
   \<and> commits s' ''c1'' = Some (example_commit ''c1'' (Some ''c0'') [(''s'', [''p1''])])
   \<and> commits s' ''c2'' = Some (example_commit ''c2'' (Some ''c1'') [(''s'', [''p1'', ''p2''])])
   \<and> get_commit_history (unreadable example_env) s' 1 = Inr [rc]"
proof -
  have "\<exists>s' rc.
           rollback_to_commit example_vcs ''c0'' ''bad update'' example_env = Inr (True, s')
         \<and> commits s' (new_commit_id example_env) = Some rc
         \<and> head_commit s' = Some (new_commit_id example_env)
         \<and> map_option b_head_commit (branches s' (current_branch s')) = Some (Some (new_commit_id example_env))
         \<and> pattern_snapshot rc = pattern_snapshot (example_commit ''c0'' None [])
         \<and> parent_id rc = Some ''c2''
         \<and> commits s' ''c0'' = Some (example_commit ''c0'' None [])
         \<and> commits s' ''c1'' = Some (example_commit ''c1'' (Some ''c0'') [(''s'', [''p1''])])
         \<and> commits s' ''c2'' = Some (example_commit ''c2'' (Some ''c1'') [(''s'', [''p1'', ''p2''])])
         \<and> (\<forall>k c. commits example_vcs k = Some c \<longrightarrow> commits s' k = Some c)
         \<and> (\<forall>k c. commits example_vcs k = Some c \<longrightarrow>
                load_commit (unreadable example_env) s' k = Inr (Some c))
         \<and> get_commit_history (unreadable example_env) s' 1 = Inr [rc]"
    by (rule rollback_law) (simp_all add: example_vcs_def example_env_def example_commit_def)
  then show ?thesis
    by (auto simp: example_env_def example_commit_def)
qed

text \<open>
  The three ways in which \<open>rollback_to_commit\<close> ends when no commit is stored under the
  target identifier, and the only way in which it returns false.
\<close>

lemma rollback_absent:
  "commits s cid = None \<Longrightarrow> unreadable e cid = None \<Longrightarrow>
   rollback_to_commit s cid reason e = Inr (False, s)"
  by (simp add: rollback_to_commit_def load_commit_def)

lemma rollback_unreadable:
  "commits s cid = None \<Longrightarrow> unreadable e cid = Some err \<Longrightarrow>
   rollback_to_commit s cid reason e = Inl err"
  by (simp add: rollback_to_commit_def load_commit_def)

lemma rollback_false_only:
  "rollback_to_commit s cid reason e = Inr (False, s') \<Longrightarrow>
   commits s cid = None \<and> unreadable e cid = None \<and> s' = s"
  by (auto simp: rollback_to_commit_def load_commit_def Let_def
      split: option.splits sum.splits)

text \<open>
  C5 (missing rollback target) does not hold of the code. No commit is stored under the
  identifier \<open>../branches/main\<close>, yet \<open>rollback_to_commit\<close> does not return false: the path
  built from the identifier names the record of the branch \<open>main\<close>, and
  \<open>PatternCommit(**commit_data)\<close> raises \<open>TypeError\<close> on it. For an identifier whose path
  names no file, the call returns false and leaves the repository as it was.
\<close>

theorem rollback_unloadable_target:
  "commits example_vcs ''../branches/main'' = None
   \<and> branches example_vcs ''main'' \<noteq> None
   \<and> rollback_to_commit example_vcs ''../branches/main'' ''manual rollback'' example_env
       = Inl TypeError
   \<and> commits example_vcs ''zz'' = None
   \<and> rollback_to_commit example_vcs ''zz'' ''manual rollback'' example_env
       = Inr (False, example_vcs)"
  by (simp add: rollback_to_commit_def load_commit_def example_vcs_def example_env_def)

section \<open>Double-precision rounding\<close>

lemma rne_int: "rne (of_int m) = m"
  by (simp add: rne_def)

lemma rne_bounds: "t - 1/2 \<le> of_int (rne t)" "of_int (rne t) \<le> t + 1/2"
  unfolding rne_def Let_def by (auto; linarith)+

lemma rne_lower: "of_int m \<le> t \<Longrightarrow> m \<le> rne t"
  unfolding rne_def Let_def by (auto simp: le_floor_iff; linarith)

lemma rne_upper: "t \<le> of_int m \<Longrightarrow> rne t \<le> m"
  unfolding rne_def Let_def by (auto simp: floor_le_iff; linarith)

lemma rne_mono:
  assumes "s \<le> t"
  shows "rne s \<le> rne t"
proof (rule ccontr)
  assume "\<not> rne s \<le> rne t"
  then have "rne t + 1 \<le> rne s" by simp
  then have "real_of_int (rne t) + 1 \<le> of_int (rne s)" by linarith
  with rne_bounds(1)[of t] rne_bounds(2)[of s] assms have "s = t" by linarith
  with \<open>\<not> rne s \<le> rne t\<close> show False by simp
qed

lemma ulp_pos: "0 < ulp x"
  by (simp add: ulp_def)

lemma round_double_0: "round_double 0 = 0"
  by (simp add: round_double_def)

lemma round_double_pos:
  "0 < x \<Longrightarrow> round_double x = of_int (rne (x / ulp x)) * ulp x"
  by (simp add: round_double_def)

lemma round_double_nonneg: "0 \<le> x \<Longrightarrow> 0 \<le> round_double x"
proof (cases "x = 0")
  case True then show ?thesis by (simp add: round_double_0)
next
  case False
  assume "0 \<le> x"
  with False have x: "0 < x" by simp
  have "0 \<le> x / ulp x" using x ulp_pos[of x] by simp
  then have "0 \<le> rne (x / ulp x)" using rne_lower[of 0 "x / ulp x"] by simp
  then show ?thesis using ulp_pos[of x] by (simp add: round_double_pos[OF x])
qed

lemma expo_mono: "0 < x \<Longrightarrow> x \<le> y \<Longrightarrow> expo x \<le> expo y"
proof -
  assume "0 < x" "x \<le> y"
  then have "log 2 x \<le> log 2 y" by simp
  then have "\<lfloor>log 2 x\<rfloor> \<le> \<lfloor>log 2 y\<rfloor>" by (rule floor_mono)
  then show ?thesis using \<open>0 < x\<close> \<open>x \<le> y\<close> by (simp add: expo_def)
qed

lemma below_binade: "0 < x \<Longrightarrow> x < 2 powr of_int (expo x + 1)"
proof -
  assume x: "0 < x"
  have "x < 2 powr of_int (\<lfloor>log 2 x\<rfloor> + 1)"
    using floor_log_eq_powr_iff[of x 2 "\<lfloor>log 2 x\<rfloor>"] x by simp
  also have "\<dots> \<le> 2 powr of_int (expo x + 1)"
    using x by (simp add: expo_def)
  finally show ?thesis .
qed

lemma above_binade: "0 < x \<Longrightarrow> -1022 < expo x \<Longrightarrow> 2 powr of_int (expo x) \<le> x"
proof -
  assume x: "0 < x" and e: "-1022 < expo x"
  then have "expo x = \<lfloor>log 2 x\<rfloor>" by (simp add: expo_def max_def split: if_splits)
  then show ?thesis
    using floor_log_eq_powr_iff[of x 2 "\<lfloor>log 2 x\<rfloor>"] x by simp
qed

lemma round_double_le_binade:
  assumes x: "0 < x"
  shows "round_double x \<le> 2 powr of_int (expo x + 1)"
proof -
  have e1: "real_of_int (expo x + 1) - real_of_int (expo x - 52) = 53" by simp
  have e2: "53 + real_of_int (expo x - 52) = real_of_int (expo x + 1)" by simp
  have "x / ulp x \<le> 2 powr of_int (expo x + 1) / ulp x"
    using below_binade[OF x] ulp_pos[of x] by (simp add: divide_right_mono)
  also have "2 powr of_int (expo x + 1) / ulp x = 2 powr 53"
    unfolding ulp_def powr_diff[symmetric] e1 by (rule refl)
  also have "(2::real) powr 53 = of_int (2 ^ 53)" by simp
  finally have "rne (x / ulp x) \<le> 2 ^ 53" by (rule rne_upper)
  then have "real_of_int (rne (x / ulp x)) \<le> 2 powr 53" by simp
  then have "real_of_int (rne (x / ulp x)) * ulp x \<le> 2 powr 53 * ulp x"
    using ulp_pos[of x] by (simp add: mult_right_mono)
  also have "2 powr 53 * ulp x = 2 powr of_int (expo x + 1)"
    unfolding ulp_def powr_add[symmetric] e2 by (rule refl)
  finally show ?thesis by (simp add: round_double_pos[OF x])
qed

lemma round_double_ge_binade:
  assumes x: "0 < x" and e: "-1022 < expo x"
  shows "2 powr of_int (expo x) \<le> round_double x"
proof -
  have e1: "real_of_int (expo x) - real_of_int (expo x - 52) = 52" by simp
  have e2: "52 + real_of_int (expo x - 52) = real_of_int (expo x)" by simp
  have "2 powr of_int (expo x) / ulp x \<le> x / ulp x"
    using above_binade[OF x e] ulp_pos[of x] by (simp add: divide_right_mono)
  moreover have "2 powr of_int (expo x) / ulp x = 2 powr 52"
    unfolding ulp_def powr_diff[symmetric] e1 by (rule refl)
  moreover have "(2::real) powr 52 = of_int (2 ^ 52)" by simp
  ultimately have "of_int (2 ^ 52) \<le> x / ulp x" by simp
  then have "2 ^ 52 \<le> rne (x / ulp x)" by (rule rne_lower)
  then have "2 powr 52 \<le> real_of_int (rne (x / ulp x))" by simp
  then have "2 powr 52 * ulp x \<le> real_of_int (rne (x / ulp x)) * ulp x"
    using ulp_pos[of x] by (simp add: mult_right_mono)
  moreover have "2 powr 52 * ulp x = 2 powr of_int (expo x)"
    unfolding ulp_def powr_add[symmetric] e2 by (rule refl)
  ultimately show ?thesis by (simp add: round_double_pos[OF x])
qed

lemma round_double_mono:
  assumes "0 \<le> x" "x \<le> y"
  shows "round_double x \<le> round_double y"
proof (cases "x = 0")
  case True
  then show ?thesis using assms round_double_nonneg[of y] by (simp add: round_double_0)
next
  case False
  with assms have x: "0 < x" and y: "0 < y" by simp_all
  have le: "expo x \<le> expo y" by (rule expo_mono[OF x assms(2)])
  show ?thesis
  proof (cases "expo x = expo y")
    case True
    then have u: "ulp x = ulp y" by (simp add: ulp_def)
    have "x / ulp y \<le> y / ulp y" using assms(2) ulp_pos[of y] by (simp add: divide_right_mono)
    then have "rne (x / ulp y) \<le> rne (y / ulp y)" by (rule rne_mono)
    then have "real_of_int (rne (x / ulp y)) * ulp y \<le> real_of_int (rne (y / ulp y)) * ulp y"
      using ulp_pos[of y] by (simp add: mult_right_mono)
    then show ?thesis by (simp add: round_double_pos x y u)
  next
    case False
    with le have lt: "expo x + 1 \<le> expo y" by simp
    have "-1022 \<le> expo x" by (simp add: expo_def)
    with lt have n: "-1022 < expo y" by simp
    have "round_double x \<le> 2 powr of_int (expo x + 1)" by (rule round_double_le_binade[OF x])
    also have "\<dots> \<le> 2 powr of_int (expo y)" using lt by (simp del: of_int_add)
    also have "\<dots> \<le> round_double y" by (rule round_double_ge_binade[OF y n])
    finally show ?thesis .
  qed
qed


lemma round_double_binade:
  assumes x: "0 < x" and lo: "2 powr of_int k \<le> x" and hi: "x < 2 powr of_int (k + 1)"
    and k: "- 1022 \<le> k"
  shows "round_double x = of_int (rne (x / 2 powr of_int (k - 52))) * 2 powr of_int (k - 52)"
proof -
  have "\<lfloor>log 2 x\<rfloor> = k"
    using floor_log_eq_powr_iff[of x 2 k] x lo hi by simp
  then have "expo x = k" using x k by (simp add: expo_def)
  then show ?thesis by (simp add: round_double_pos[OF x] ulp_def)
qed

lemma two_powr_nat: "(2::real) powr real m = 2 ^ m"
  by (simp add: powr_realpow)

lemma two_powr_neg: "(2::real) powr (- real m) = 1 / 2 ^ m"
  by (simp add: powr_minus powr_realpow divide_inverse)

lemma round_double_small:
  assumes lo: "1 \<le> x * 2 ^ n" and hi: "x * 2 ^ n < 2" and n: "n \<le> 1022"
  shows "round_double x = of_int (rne (x * 2 ^ (n + 52))) / 2 ^ (n + 52)"
proof -
  have p: "(0::real) < 2 ^ n" by simp
  have x: "0 < x"
  proof (rule ccontr)
    assume "\<not> 0 < x"
    then have "x * 2 ^ n \<le> 0" using p by (simp add: mult_le_0_iff)
    with lo show False by simp
  qed
  have ea: "real_of_int (- int n) = - real n" by simp
  have a: "(2::real) powr of_int (- int n) = 1 / 2 ^ n"
    unfolding ea by (rule two_powr_neg)
  have b: "(2::real) powr of_int (- int n + 1) = 2 / 2 ^ n"
  proof (cases n)
    case 0
    then show ?thesis by simp
  next
    case (Suc m)
    then have "real_of_int (- int n + 1) = - real m" by simp
    then show ?thesis using Suc by (simp only: two_powr_neg) simp
  qed
  have ec: "real_of_int (- int n - 52) = - real (n + 52)" by simp
  have c: "(2::real) powr of_int (- int n - 52) = 1 / 2 ^ (n + 52)"
    unfolding ec by (rule two_powr_neg)
  have "round_double x =
          of_int (rne (x / 2 powr of_int (- int n - 52))) * 2 powr of_int (- int n - 52)"
  proof (rule round_double_binade[OF x])
    show "2 powr of_int (- int n) \<le> x" unfolding a using lo p by (simp add: field_simps)
    show "x < 2 powr of_int (- int n + 1)" unfolding b using hi p by (simp add: field_simps)
    show "- 1022 \<le> - int n" using n by simp
  qed
  then show ?thesis unfolding c by simp
qed

lemma round_double_large:
  assumes lo: "2 ^ n \<le> x" and hi: "x < 2 ^ (n + 1)" and n: "n \<le> 52"
  shows "round_double x = of_int (rne (x * 2 ^ (52 - n))) / 2 ^ (52 - n)"
proof -
  have "(0::real) < 2 ^ n" by simp
  with lo have x: "0 < x" by linarith
  have ea: "real_of_int (int n) = real n" by simp
  have a: "(2::real) powr of_int (int n) = 2 ^ n"
    unfolding ea by (rule two_powr_nat)
  have eb: "real_of_int (int n + 1) = real (n + 1)" by simp
  have b: "(2::real) powr of_int (int n + 1) = 2 ^ (n + 1)"
    unfolding eb by (rule two_powr_nat)
  have ec: "real_of_int (int n - 52) = - real (52 - n)" using n by simp
  have c: "(2::real) powr of_int (int n - 52) = 1 / 2 ^ (52 - n)"
    unfolding ec by (rule two_powr_neg)
  have "round_double x =
          of_int (rne (x / 2 powr of_int (int n - 52))) * 2 powr of_int (int n - 52)"
  proof (rule round_double_binade[OF x])
    show "2 powr of_int (int n) \<le> x" using lo by (simp only: a)
    show "x < 2 powr of_int (int n + 1)" using hi by (simp only: b)
    show "- 1022 \<le> int n" by simp
  qed
  then show ?thesis unfolding c by simp
qed

lemma rd_eighth: "round_double (1 / 8) = 1 / 8"
  by (subst round_double_small[where n=3]) (simp_all add: rne_def)

lemma rd_fifth: "round_double (1 / 5) = 3602879701896397 / 18014398509481984"
  by (subst round_double_small[where n=3]) (simp_all add: rne_def)

lemma rd_three_eighths: "round_double (3 / 8) = 3 / 8"
  by (subst round_double_small[where n=2]) (simp_all add: rne_def)

lemma rd_unit_values:
  "round_double (13 / 16) = 13 / 16"
  "round_double (7 / 8) = 7 / 8"
  "round_double (7 / 10) = 3152519739159347 / 4503599627370496"
  "round_double (4 / 5) = 3602879701896397 / 4503599627370496"
  by (subst round_double_small[where n=1], simp_all add: rne_def)+

lemma rd_one: "round_double 1 = 1"
  by (subst round_double_large[where n=0]) (simp_all add: rne_def)

lemma rd_values_1: "round_double (7 / 4) = 7 / 4"
  by (subst round_double_large[where n=0]) (simp_all add: rne_def)

lemma rd_values_2:
  "round_double (21 / 8) = 21 / 8"
  "round_double (7 / 2) = 7 / 2"
  by (subst round_double_large[where n=1], simp_all add: rne_def)+

lemma rd_values_4:
  "round_double (35 / 8) = 35 / 8"
  "round_double (21 / 4) = 21 / 4"
  "round_double (49 / 8) = 49 / 8"
  "round_double (13 / 2) = 13 / 2"
  by (subst round_double_large[where n=2], simp_all add: rne_def)+

section \<open>Acceptance of a validated batch\<close>

lemma stage_loop_eq:
  "stage_loop rs (ts, tc, fc) =
     (foldl fadd ts (map (\<lambda>kr. score (snd kr)) rs), tc + length rs,
      fc + length (filter (\<lambda>kr. \<not> passed (snd kr)) rs))"
  by (induction rs arbitrary: ts tc fc) auto

lemma pattern_loop_eq:
  "pattern_loop vr (ts, tc, fc) =
     (foldl fadd ts (map score (stage_results vr)), tc + length (stage_results vr),
      fc + length (failed_results (stage_results vr)))"
proof (induction vr arbitrary: ts tc fc)
  case Nil
  then show ?case by (simp add: stage_results_def failed_results_def)
next
  case (Cons a vr)
  obtain k pr where a: "a = (k, pr)" by (cases a)
  show ?case
    by (simp add: a stage_loop_eq Cons.IH stage_results_def failed_results_def
        filter_map comp_def add.assoc)
qed

lemma stage_results_Nil: "stage_results [] = []"
  by (simp add: stage_results_def)

lemma validation_passed_eq:
  "validation_passed vr \<longleftrightarrow>
     stage_results vr \<noteq> [] \<and> mean_score (stage_results vr) > round_double (7 / 10)
     \<and> failure_rate (stage_results vr) < round_double (1 / 5)"
proof (cases "vr = []")
  case True
  then show ?thesis by (simp add: validation_passed_def stage_results_Nil)
next
  case False
  then show ?thesis
    by (simp add: validation_passed_def pattern_loop_eq mean_score_def failure_rate_def
        float_sum_def)
qed

lemma failure_rate_bound:
  fixes f n :: nat
  assumes n: "0 < n" and lt: "round_double (real f / real n) < round_double (1 / 5)"
  shows "5 * f < n"
proof (rule ccontr)
  assume "\<not> 5 * f < n"
  then have "n \<le> 5 * f" by simp
  then have "real n \<le> 5 * real f" by (metis of_nat_le_iff of_nat_mult of_nat_numeral)
  then have "1 / 5 \<le> real f / real n" using n by (simp add: field_simps)
  then have "round_double (1 / 5) \<le> round_double (real f / real n)"
    by (intro round_double_mono) simp_all
  with lt show False by simp
qed

lemma failure_rate_none: "round_double (real (0::nat) / real n) < round_double (1 / 5)"
  by (simp add: round_double_0 rd_fifth)

lemma failed_results_Nil: "failed_results rs = [] \<longleftrightarrow> (\<forall>r \<in> set rs. passed r)"
  by (auto simp: failed_results_def filter_empty_conv)

lemma acceptance_bounds_failures:
  assumes "validation_passed vr"
  shows "5 * length (failed_results (stage_results vr)) < length (stage_results vr)"
proof -
  from assms have ne: "stage_results vr \<noteq> []"
    and fr: "failure_rate (stage_results vr) < round_double (1 / 5)"
    by (simp_all add: validation_passed_eq)
  from ne have "0 < length (stage_results vr)" by simp
  from failure_rate_bound[OF this] fr show ?thesis by (simp add: failure_rate_def)
qed

lemma acceptance_small_batch:
  assumes small: "length (stage_results vr) \<le> 5"
  shows "validation_passed vr \<longleftrightarrow>
           stage_results vr \<noteq> [] \<and> (\<forall>r \<in> set (stage_results vr). passed r)
           \<and> mean_score (stage_results vr) > round_double (7 / 10)"
proof
  assume p: "validation_passed vr"
  from acceptance_bounds_failures[OF p] small
  have "length (failed_results (stage_results vr)) = 0" by linarith
  then have "\<forall>r \<in> set (stage_results vr). passed r"
    by (simp add: failed_results_Nil)
  with p show "stage_results vr \<noteq> [] \<and> (\<forall>r \<in> set (stage_results vr). passed r)
           \<and> mean_score (stage_results vr) > round_double (7 / 10)"
    by (simp add: validation_passed_eq)
next
  assume a: "stage_results vr \<noteq> [] \<and> (\<forall>r \<in> set (stage_results vr). passed r)
           \<and> mean_score (stage_results vr) > round_double (7 / 10)"
  then have "failed_results (stage_results vr) = []" by (simp add: failed_results_Nil)
  then have "failure_rate (stage_results vr) < round_double (1 / 5)"
    using failure_rate_none[of "length (stage_results vr)"] by (simp add: failure_rate_def)
  with a show "validation_passed vr" by (simp add: validation_passed_eq)
qed

lemma change_round_queues:
  "update_queue (change_round cfg pending st) =
     update_queue st @
       (if \<not> emergency_stop cfg \<and> \<not> validation_enabled cfg
        then map (\<lambda>change. (change, None)) pending else [])
   \<and> validation_queue (change_round cfg pending st) =
     validation_queue st @
       (if \<not> emergency_stop cfg \<and> validation_enabled cfg then pending else [])"
  by (induction pending arbitrary: st) auto

lemma validation_round_queue:
  "update_queue (validation_round batch change st) =
     (if extract_patterns_from_change change \<noteq> []
         \<and> validation_passed (batch (extract_patterns_from_change change))
      then update_queue st @ [(change, Some (batch (extract_patterns_from_change change)))]
      else update_queue st)"
  by (simp add: validation_round_def Let_def)

text \<open>
  C2, as amended. \<open>_validation_passed\<close> judges the whole batch of one change, in
  double-precision arithmetic: it accepts exactly when the batch holds at least one
  stage result, the mean score (the scores added from left to right, the sum divided
  by the count) compares greater than the double \<open>0.7\<close>, and the failure rate (failed
  count divided by count) compares less than the double \<open>0.2\<close>. An accepted batch has
  fewer than 20 percent of its stage results with \<open>passed = false\<close>. For a batch of at
  most five stage results (so for the result map of a single pattern, which has one or
  four entries) acceptance is: all stages passed and the mean score compares greater
  than \<open>0.7\<close>. The validation worker puts a change on the update queue, with its
  results, exactly when some pattern was extracted from it and its batch is accepted;
  the change worker puts changes there unvalidated exactly when validation is disabled
  and no emergency stop is set, and hands them to the validation worker when validation
  is enabled.
\<close>

theorem validation_acceptance:
  "(validation_passed vr \<longleftrightarrow>
      stage_results vr \<noteq> [] \<and> mean_score (stage_results vr) > round_double (7 / 10)
      \<and> failure_rate (stage_results vr) < round_double (1 / 5))
   \<and> (validation_passed vr \<longrightarrow>
        5 * length (failed_results (stage_results vr)) < length (stage_results vr))
   \<and> (length (stage_results vr) \<le> 5 \<longrightarrow>
        (validation_passed vr \<longleftrightarrow>
           stage_results vr \<noteq> [] \<and> (\<forall>r \<in> set (stage_results vr). passed r)
           \<and> mean_score (stage_results vr) > round_double (7 / 10)))
   \<and> update_queue (validation_round batch change st) =
        (if extract_patterns_from_change change \<noteq> []
            \<and> validation_passed (batch (extract_patterns_from_change change))
         then update_queue st @ [(change, Some (batch (extract_patterns_from_change change)))]
         else update_queue st)
   \<and> update_queue (change_round cfg pending st) =
        update_queue st @
          (if \<not> emergency_stop cfg \<and> \<not> validation_enabled cfg
           then map (\<lambda>change. (change, None)) pending else [])
   \<and> validation_queue (change_round cfg pending st) =
        validation_queue st @
          (if \<not> emergency_stop cfg \<and> validation_enabled cfg then pending else [])"
  using validation_passed_eq[of vr] acceptance_bounds_failures[of vr]
    acceptance_small_batch[of vr] validation_round_queue[of batch change st]
    change_round_queues[of cfg pending st]
  by blast

lemma example_extract:
  "extract_patterns_from_change example_change =
     [(''track.example.com'', ''X''), (''static.example.org'', ''X'')]"
  by (simp add: extract_patterns_from_change_def example_change_def strip_def isspace_def
      starts_with_def)

lemma example_batch_value:
  "example_batch (example_validator ''community'' ''static.example.org'')
     [(''track.example.com'', ''X''), (''static.example.org'', ''X'')] =
   [(''X:track.example.com'',
      [(''syntax'', example_stage ''community'' ''static.example.org'' ''syntax'' ''track.example.com'' ''X''),
       (''performance'', example_stage ''community'' ''static.example.org'' ''performance'' ''track.example.com'' ''X''),
       (''false_positive'', example_stage ''community'' ''static.example.org'' ''false_positive'' ''track.example.com'' ''X''),
       (''community'', example_stage ''community'' ''static.example.org'' ''community'' ''track.example.com'' ''X'')]),
    (''X:static.example.org'',
      [(''syntax'', example_stage ''community'' ''static.example.org'' ''syntax'' ''static.example.org'' ''X''),
       (''performance'', example_stage ''community'' ''static.example.org'' ''performance'' ''static.example.org'' ''X''),
       (''false_positive'', example_stage ''community'' ''static.example.org'' ''false_positive'' ''static.example.org'' ''X''),
       (''community'', example_stage ''community'' ''static.example.org'' ''community'' ''static.example.org'' ''X'')])]"
  by (simp add: example_batch_def example_validator_def validate_pattern_comprehensive_def
      Let_def example_stage_def)

lemma example_batch_passed:
  "validation_passed (example_batch (example_validator ''community'' ''static.example.org'')
     [(''track.example.com'', ''X''), (''static.example.org'', ''X'')])"
  unfolding example_batch_value
  by (simp add: validation_passed_def example_stage_def fadd_def fdiv_def
      rd_unit_values rd_values_1 rd_values_2 rd_values_4 rd_eighth rd_fifth)

text \<open>
  C2 as stated fails: in a batch of two patterns, the community stage of the second has
  \<open>passed = false\<close>, yet the batch is accepted (one failure among eight results, mean
  score 0.8125) and the change is put on the update queue.
\<close>

theorem validation_acceptance_counterexample:
  "passed (example_stage ''community'' ''static.example.org'' ''community'' ''static.example.org'' ''X'') = False
   \<and> map_of (fst (validate_pattern_comprehensive (example_validator ''community'' ''static.example.org'')
                ''static.example.org'' ''X'')) ''community''
       = Some (example_stage ''community'' ''static.example.org'' ''community'' ''static.example.org'' ''X'')
   \<and> validation_passed (example_batch (example_validator ''community'' ''static.example.org'')
        (extract_patterns_from_change example_change)) = True
   \<and> update_queue (validation_round (example_batch (example_validator ''community'' ''static.example.org''))
        example_change example_orchestrator)
       = [(example_change, Some (example_batch (example_validator ''community'' ''static.example.org'')
            (extract_patterns_from_change example_change)))]"
proof -
  have 1: "passed (example_stage ''community'' ''static.example.org'' ''community'' ''static.example.org'' ''X'') = False"
    by (simp add: example_stage_def)
  have 2: "map_of (fst (validate_pattern_comprehensive (example_validator ''community'' ''static.example.org'')
                ''static.example.org'' ''X'')) ''community''
       = Some (example_stage ''community'' ''static.example.org'' ''community'' ''static.example.org'' ''X'')"
    by (simp add: example_validator_def validate_pattern_comprehensive_def Let_def example_stage_def)
  have 3: "validation_passed (example_batch (example_validator ''community'' ''static.example.org'')
        (extract_patterns_from_change example_change))"
    unfolding example_extract by (rule example_batch_passed)
  have 4: "update_queue (validation_round (example_batch (example_validator ''community'' ''static.example.org''))
        example_change example_orchestrator)
       = [(example_change, Some (example_batch (example_validator ''community'' ''static.example.org'')
            (extract_patterns_from_change example_change)))]"
    using 3 by (simp add: validation_round_def Let_def example_extract example_orchestrator_def)
  show ?thesis using 1 2 3 4 by simp
qed

text \<open>
  Two batches of a single syntax result: a failed one is rejected, a passed one with
  score 0.875 is accepted. With validation disabled the change worker forwards a change
  without results.
\<close>

theorem validation_acceptance_witness:
  "length (stage_results [(''X:p'', [(''syntax'', example_stage ''syntax'' ''p'' ''syntax'' ''p'' ''X'')])]) \<le> 5
   \<and> \<not> validation_passed [(''X:p'', [(''syntax'', example_stage ''syntax'' ''p'' ''syntax'' ''p'' ''X'')])]
   \<and> validation_passed [(''X:q'', [(''syntax'', example_stage ''syntax'' ''p'' ''syntax'' ''q'' ''X'')])]
   \<and> update_queue (change_round (example_config False) [example_change] example_orchestrator)
        = [(example_change, None)]
   \<and> update_queue (change_round (example_config True) [example_change] example_orchestrator) = []"
proof -
  let ?p = "[(''X:p'', [(''syntax'', example_stage ''syntax'' ''p'' ''syntax'' ''p'' ''X'')])]"
  let ?q = "[(''X:q'', [(''syntax'', example_stage ''syntax'' ''p'' ''syntax'' ''q'' ''X'')])]"
  have lp: "length (stage_results ?p) \<le> 5" and lq: "length (stage_results ?q) \<le> 5"
    by (simp_all add: stage_results_def)
  have mq: "mean_score (stage_results ?q) > round_double (7 / 10)"
    by (simp add: stage_results_def mean_score_def float_sum_def fadd_def fdiv_def
        example_stage_def rd_unit_values)
  have p: "\<not> validation_passed ?p"
    using validation_acceptance[of ?p, THEN conjunct2, THEN conjunct2, THEN conjunct1,
        rule_format, OF lp]
    by (simp add: stage_results_def example_stage_def)
  have q: "validation_passed ?q"
    using validation_acceptance[of ?q, THEN conjunct2, THEN conjunct2, THEN conjunct1,
        rule_format, OF lq] mq
    by (simp add: stage_results_def example_stage_def)
  have c1: "update_queue (change_round (example_config False) [example_change] example_orchestrator)
        = [(example_change, None)]"
    by (simp add: example_config_def example_orchestrator_def)
  have c2: "update_queue (change_round (example_config True) [example_change] example_orchestrator) = []"
    by (simp add: example_config_def example_orchestrator_def)
  show ?thesis using lp p q c1 c2 by simp
qed

text \<open>
  At the threshold the double-precision mean decides. Three passed results with the
  scores 0.8, 0.8 and 0.5 are accepted: their computed mean is the double just above
  \<open>0.7\<close>. Four passed results with the scores 0.0, 0.8, 1.0 and 1.0 are rejected: their
  sum is a tie that rounds to even, and the computed mean is the double \<open>0.7\<close> itself.
\<close>

lemma threshold_values:
  "round_double (3602879701896397 / 4503599627370496) = 3602879701896397 / 4503599627370496"
  "round_double (4728779608739021 / 6755399441055744) = 6305039478318695 / 9007199254740992"
  "round_double (3152519739159347 / 4503599627370496) = 3152519739159347 / 4503599627370496"
  by (subst round_double_small[where n=1], simp_all add: rne_def)+

lemma threshold_values_1:
  "round_double (3602879701896397 / 2251799813685248) = 3602879701896397 / 2251799813685248"
  "round_double (8106479329266893 / 4503599627370496) = 8106479329266893 / 4503599627370496"
  by (subst round_double_large[where n=0], simp_all add: rne_def)+

lemma threshold_values_2:
  "round_double (4728779608739021 / 2251799813685248) = 4728779608739021 / 2251799813685248"
  "round_double (12610078956637389 / 4503599627370496) = 3152519739159347 / 1125899906842624"
  by (subst round_double_large[where n=1], simp_all add: rne_def)+

lemma threshold_rounds_up:
  "validation_passed
     [(''X:p'', [(''syntax'', example_passed (round_double (4 / 5))),
                 (''performance'', example_passed (round_double (4 / 5))),
                 (''false_positive'', example_passed (1 / 2))])]"
  by (simp add: validation_passed_def example_passed_def fadd_def fdiv_def
      rd_unit_values rd_fifth round_double_0 threshold_values threshold_values_1
      threshold_values_2)

lemma threshold_tie:
  "\<not> validation_passed
     [(''X:p'', [(''syntax'', example_passed 0),
                 (''performance'', example_passed (round_double (4 / 5))),
                 (''false_positive'', example_passed 1),
                 (''community'', example_passed 1)])]"
  by (simp add: validation_passed_def example_passed_def fadd_def fdiv_def
      rd_unit_values rd_fifth round_double_0 threshold_values threshold_values_1
      threshold_values_2)

section \<open>Order of the validation stages\<close>

text \<open>
  C4 (syntax failure). When the syntax stage returns \<open>passed = false\<close>,
  \<open>validate_pattern_comprehensive\<close> runs no other stage and returns a map whose only
  entry is \<open>syntax\<close>: the keys \<open>performance\<close>, \<open>false_positive\<close> and \<open>community\<close> are
  absent.
\<close>

theorem syntax_failure_aborts:
  assumes "\<not> passed (validate_syntax v pat src)"
  shows "validate_pattern_comprehensive v pat src =
           ([(''syntax'', validate_syntax v pat src)], [''syntax''])
         \<and> map_of (fst (validate_pattern_comprehensive v pat src)) ''performance'' = None
         \<and> map_of (fst (validate_pattern_comprehensive v pat src)) ''false_positive'' = None
         \<and> map_of (fst (validate_pattern_comprehensive v pat src)) ''community'' = None"
  using assms by (simp add: validate_pattern_comprehensive_def)

theorem syntax_failure_aborts_witness:
  "\<not> passed (validate_syntax (example_validator ''syntax'' ''.*.*.*'') ''.*.*.*'' ''X'')
   \<and> validate_pattern_comprehensive (example_validator ''syntax'' ''.*.*.*'') ''.*.*.*'' ''X'' =
       ([(''syntax'', example_stage ''syntax'' ''.*.*.*'' ''syntax'' ''.*.*.*'' ''X'')], [''syntax''])"
proof -
  have h: "\<not> passed (validate_syntax (example_validator ''syntax'' ''.*.*.*'') ''.*.*.*'' ''X'')"
    by (simp add: example_validator_def example_stage_def)
  from syntax_failure_aborts[OF h] h show ?thesis
    by (simp add: example_validator_def)
qed

text \<open>
  C3 as stated fails: the performance stage returns \<open>passed = false\<close>, and the
  false-positive and community stages are run all the same and appear in the map.
\<close>

theorem stage_order_counterexample:
  "passed (the (map_of (fst (validate_pattern_comprehensive
       (example_validator ''performance'' ''(a+)+$'') ''(a+)+$'' ''X'')) ''performance'')) = False
   \<and> map_of (fst (validate_pattern_comprehensive
       (example_validator ''performance'' ''(a+)+$'') ''(a+)+$'' ''X'')) ''false_positive''
       = Some (example_stage ''performance'' ''(a+)+$'' ''false_positive'' ''(a+)+$'' ''X'')
   \<and> map_of (fst (validate_pattern_comprehensive
       (example_validator ''performance'' ''(a+)+$'') ''(a+)+$'' ''X'')) ''community''
       = Some (example_stage ''performance'' ''(a+)+$'' ''community'' ''(a+)+$'' ''X'')
   \<and> snd (validate_pattern_comprehensive
       (example_validator ''performance'' ''(a+)+$'') ''(a+)+$'' ''X'')
       = [''syntax'', ''performance'', ''false_positive'', ''community'']"
  by (simp add: validate_pattern_comprehensive_def example_validator_def example_stage_def Let_def)

text \<open>
  C3, as amended. The stages run in the order syntax, performance, false positive,
  community, and the returned map lists exactly the stages run, in that order. Only a
  failing syntax stage ends the run early. When the syntax stage passes, all four stages
  run and all four results are returned, whatever the later stages report.
\<close>

theorem stage_order:
  "snd (validate_pattern_comprehensive v pat src) =
     (if passed (validate_syntax v pat src)
      then [''syntax'', ''performance'', ''false_positive'', ''community'']
      else [''syntax''])
   \<and> map fst (fst (validate_pattern_comprehensive v pat src)) =
       snd (validate_pattern_comprehensive v pat src)
   \<and> (passed (validate_syntax v pat src) \<longrightarrow>
        fst (validate_pattern_comprehensive v pat src) =
          [(''syntax'', validate_syntax v pat src),
           (''performance'', validate_performance v pat src),
           (''false_positive'', validate_false_positives v pat src),
           (''community'', validate_community_score v pat src)])"
  by (simp add: validate_pattern_comprehensive_def Let_def)

theorem stage_order_witness:
  "passed (validate_syntax (example_validator ''performance'' ''(a+)+$'') ''(a+)+$'' ''X'')
   \<and> \<not> passed (validate_performance (example_validator ''performance'' ''(a+)+$'') ''(a+)+$'' ''X'')
   \<and> map fst (fst (validate_pattern_comprehensive
        (example_validator ''performance'' ''(a+)+$'') ''(a+)+$'' ''X''))
       = [''syntax'', ''performance'', ''false_positive'', ''community'']"
  using stage_order[of "example_validator ''performance'' ''(a+)+$''" "''(a+)+$''" "''X''"]
  by (simp add: example_validator_def example_stage_def)

section \<open>Change detection and the cache baseline\<close>

lemma splitlines_ab: "splitlines ''a\<newline>b'' = [''a'', ''b'']"
  by (simp add: splitlines_def is_linebreak_def)

lemma splitlines_abc:
  "splitlines ''a\<newline>b\<newline>c'' = [''a'', ''b'', ''c'']"
  by (simp add: splitlines_def is_linebreak_def)

lemma iter_singleton:
  assumes "iterates_sets it"
  shows "it {x} = [x]"
proof -
  have s: "set (it {x}) = {x}" and d: "distinct (it {x})"
    using assms by (simp_all add: iterates_sets_def)
  show ?thesis
  proof (cases "it {x}")
    case Nil
    with s show ?thesis by simp
  next
    case (Cons y ys)
    with s d have "y = x" "set ys \<subseteq> {x}" "y \<notin> set ys" by auto
    then have "ys = []" by (cases ys) auto
    with Cons \<open>y = x\<close> show ?thesis by simp
  qed
qed

lemma iter_empty: "iterates_sets it \<Longrightarrow> it {} = []"
  by (auto simp: iterates_sets_def dest!: spec[where x="{}"])

lemma iterates_sorted: "iterates_sets sorted_list_of_set"
  by (simp add: iterates_sets_def)

lemma detect_abc:
  assumes "iterates_sets (set_iter e)"
  shows "\<exists>ev. detect_changes e src (Some ''a\<newline>b'')
                 ''a\<newline>b\<newline>c'' = Some ev
             \<and> added_lines (ev_changes ev) = [''c'']
             \<and> removed_lines (ev_changes ev) = []
             \<and> source_name ev = gs_name src"
proof -
  have a: "set [''a'', ''b'', ''c''] - set [''a'', ''b''] = {''c''}" by auto
  have r: "set [''a'', ''b''] - set [''a'', ''b'', ''c''] = {}" by auto
  show ?thesis
    unfolding detect_changes_def Let_def
    by (simp only: splitlines_ab splitlines_abc a r truthy.simps option.sel)
       (simp add: iter_singleton[OF assms] iter_empty[OF assms])
qed

lemma check_for_commits_name:
  "check_for_commits src api = Inr (sha, src1) \<Longrightarrow> gs_name src1 = gs_name src"
  by (auto simp: check_for_commits_def split: api_data.splits if_splits)

lemma check_for_commits_ok:
  "api \<noteq> ApiOther \<Longrightarrow> \<exists>sha src1. check_for_commits src api = Inr (sha, src1)"
  by (cases api) (auto simp: check_for_commits_def)

text \<open>
  C6 (scenario A). Let the cached content of a source be the two lines \<open>a\<close>, \<open>b\<close>, let
  the commit check not raise, and let the poll fetch the three lines \<open>a\<close>, \<open>b\<close>, \<open>c\<close>.
  Then the poll puts exactly one change event on the queue, for that source, whose added
  lines are \<open>[c]\<close> and whose removed lines are empty (whatever order Python uses to
  iterate over a set).
\<close>

theorem scenario_a:
  assumes it: "iterates_sets (set_iter e)"
    and baseline: "cache m (gs_name src) = Some ''a\<newline>b''"
    and api: "api \<noteq> ApiOther"
  shows "\<exists>src' m' ev.
           monitor_source e api (Ok200 ''a\<newline>b\<newline>c'' et lm t) src m = (src', m')
         \<and> change_queue m' = change_queue m @ [ev]
         \<and> source_name ev = gs_name src
         \<and> added_lines (ev_changes ev) = [''c'']
         \<and> removed_lines (ev_changes ev) = []"
proof -
  from check_for_commits_ok[OF api] obtain sha src1 where
    c: "check_for_commits src api = Inr (sha, src1)" by blast
  have n: "gs_name src1 = gs_name src" by (rule check_for_commits_name[OF c])
  define src2 where "src2 = src1\<lparr>etag := et, last_modified := lm, last_check := Some t\<rparr>"
  have n2: "gs_name src2 = gs_name src" by (simp add: src2_def n)
  from detect_abc[OF it, of src2] obtain ev where
    d: "detect_changes e src2 (Some ''a\<newline>b'') ''a\<newline>b\<newline>c'' = Some ev"
    and a: "added_lines (ev_changes ev) = [''c'']"
    and r: "removed_lines (ev_changes ev) = []"
    and s: "source_name ev = gs_name src2" by blast
  have "monitor_source e api (Ok200 ''a\<newline>b\<newline>c'' et lm t) src m =
          (src2, queue_put ev (write_cache (gs_name src2) ''a\<newline>b\<newline>c'' m))"
    using d by (simp add: monitor_source_def c fetch_with_etag_def n baseline src2_def)
  then show ?thesis
    using a r s n2 by (simp add: queue_put_def write_cache_def)
qed

theorem scenario_a_witness:
  "\<exists>src' m' ev.
     monitor_source example_detect_env ApiNone (Ok200 ''a\<newline>b\<newline>c'' None None 1)
       example_source example_monitor = (src', m')
   \<and> change_queue m' = [ev]
   \<and> source_name ev = ''X''
   \<and> added_lines (ev_changes ev) = [''c'']
   \<and> removed_lines (ev_changes ev) = []"
proof -
  have it: "iterates_sets (set_iter example_detect_env)"
    by (simp add: example_detect_env_def iterates_sorted)
  have b: "cache example_monitor (gs_name example_source) = Some ''a\<newline>b''"
    by (simp add: example_monitor_def example_source_def)
  have a: "ApiNone \<noteq> ApiOther" by simp
  from scenario_a[OF it b a, of None None 1] show ?thesis
    by (simp add: example_monitor_def example_source_def)
qed

lemma monitor_source_cases:
  "monitor_source e api resp src m = (src', m') \<Longrightarrow>
   m' = m \<or>
   (\<exists>content et lm t ev src2.
      resp = Ok200 content et lm t
    \<and> detect_changes e src2 (cache m (gs_name src)) content = Some ev
    \<and> m' = queue_put ev (write_cache (gs_name src) content m))"
  by (cases api; cases resp)
     (auto simp: monitor_source_def check_for_commits_def fetch_with_etag_def
           split: if_splits option.splits)

text \<open>
  C7, as amended. A poll that queues a change event has fetched new content with status
  200, and it writes that content to the source's cache file first and puts the event
  on the queue second, both inside \<open>_monitor_source\<close>: when the poll returns, the cache
  holds the new content and the event is the last element of the queue. Nothing
  downstream is awaited.
\<close>

theorem cache_written_before_queue:
  assumes "monitor_source e api resp src m = (src', m')"
    and "change_queue m' \<noteq> change_queue m"
  shows "\<exists>content et lm t ev.
           resp = Ok200 content et lm t
         \<and> cache m' (gs_name src) = Some content
         \<and> change_queue m' = change_queue m @ [ev]
         \<and> effects m' = effects m @ [CacheWrite (gs_name src) content, QueuePut ev]"
proof -
  from monitor_source_cases[OF assms(1)] assms(2) obtain content et lm t ev where
    "resp = Ok200 content et lm t"
    "m' = queue_put ev (write_cache (gs_name src) content m)"
    by blast
  then show ?thesis by (simp add: queue_put_def write_cache_def)
qed

lemma example_poll:
  "\<exists>src'. monitor_source example_detect_env ApiNone (Ok200 ''a\<newline>b\<newline>c'' None None 1)
       example_source example_monitor =
     (src', \<lparr>cache = [''X'' \<mapsto> ''a\<newline>b\<newline>c''],
            change_queue =
              [\<lparr>source_name = ''X'', change_type = ''modified'', ev_timestamp = 0,
                commit_sha = ''0123456789abcdef'',
                ev_changes = \<lparr>added_patterns = 1, removed_patterns = 0, added_lines = [''c''],
                              removed_lines = [], total_lines = 3\<rparr>,
                validation_required = True\<rparr>],
            effects =
              [CacheWrite ''X'' ''a\<newline>b\<newline>c'',
               QueuePut
                \<lparr>source_name = ''X'', change_type = ''modified'', ev_timestamp = 0,
                 commit_sha = ''0123456789abcdef'',
                 ev_changes = \<lparr>added_patterns = 1, removed_patterns = 0, added_lines = [''c''],
                               removed_lines = [], total_lines = 3\<rparr>,
                 validation_required = True\<rparr>]\<rparr>)"
proof -
  have a: "set [''a'', ''b'', ''c''] - set [''a'', ''b''] = {''c''}" by auto
  have r: "set [''a'', ''b''] - set [''a'', ''b'', ''c''] = {}" by auto
  have c: "card (set [''a'', ''b'', ''c'']) = 3" by (simp add: card_set)
  show ?thesis
    unfolding monitor_source_def detect_changes_def Let_def check_for_commits_def
      fetch_with_etag_def
    by (simp add: example_monitor_def example_source_def example_detect_env_def
        splitlines_ab splitlines_abc a r c queue_put_def write_cache_def
        del: set_simps)
qed

text \<open>
  C7 as stated fails: after the poll of scenario A the event is still waiting in the
  change queue, taken by no consumer, and the cache file already holds the new content
  instead of the previous baseline; the cache write precedes the queue insertion.
\<close>

theorem baseline_before_acceptance_counterexample:
  "cache example_monitor ''X'' = Some ''a\<newline>b''
   \<and> cache (snd (monitor_source example_detect_env ApiNone (Ok200 ''a\<newline>b\<newline>c'' None None 1)
               example_source example_monitor)) ''X'' = Some ''a\<newline>b\<newline>c''
   \<and> length (change_queue (snd (monitor_source example_detect_env ApiNone
               (Ok200 ''a\<newline>b\<newline>c'' None None 1) example_source example_monitor))) = 1
   \<and> map (case_effect (\<lambda>nm content. ''cache'') (\<lambda>ev. ''queue''))
        (effects (snd (monitor_source example_detect_env ApiNone
               (Ok200 ''a\<newline>b\<newline>c'' None None 1) example_source example_monitor)))
       = [''cache'', ''queue'']"
proof -
  from example_poll obtain src' where
    "monitor_source example_detect_env ApiNone (Ok200 ''a\<newline>b\<newline>c'' None None 1)
       example_source example_monitor =
     (src', \<lparr>cache = [''X'' \<mapsto> ''a\<newline>b\<newline>c''],
            change_queue =
              [\<lparr>source_name = ''X'', change_type = ''modified'', ev_timestamp = 0,
                commit_sha = ''0123456789abcdef'',
                ev_changes = \<lparr>added_patterns = 1, removed_patterns = 0, added_lines = [''c''],
                              removed_lines = [], total_lines = 3\<rparr>,
                validation_required = True\<rparr>],
            effects =
              [CacheWrite ''X'' ''a\<newline>b\<newline>c'',
               QueuePut
                \<lparr>source_name = ''X'', change_type = ''modified'', ev_timestamp = 0,
                 commit_sha = ''0123456789abcdef'',
                 ev_changes = \<lparr>added_patterns = 1, removed_patterns = 0, added_lines = [''c''],
                               removed_lines = [], total_lines = 3\<rparr>,
                 validation_required = True\<rparr>]\<rparr>)"
    by blast
  then show ?thesis by (simp add: example_monitor_def)
qed

theorem cache_written_before_queue_witness:
  "change_queue (snd (monitor_source example_detect_env ApiNone (Ok200 ''a\<newline>b\<newline>c'' None None 1)
               example_source example_monitor)) \<noteq> change_queue example_monitor
   \<and> (\<exists>ev. effects (snd (monitor_source example_detect_env ApiNone
               (Ok200 ''a\<newline>b\<newline>c'' None None 1) example_source example_monitor))
          = [CacheWrite ''X'' ''a\<newline>b\<newline>c'', QueuePut ev])"
proof -
  let ?r = "monitor_source example_detect_env ApiNone (Ok200 ''a\<newline>b\<newline>c'' None None 1)
               example_source example_monitor"
  have h1: "?r = (fst ?r, snd ?r)" by simp
  from example_poll have h2: "change_queue (snd ?r) \<noteq> change_queue example_monitor"
    by (auto simp: example_monitor_def)
  from cache_written_before_queue[OF h1 h2] h2 show ?thesis
    by (auto simp: example_monitor_def example_source_def)
qed

lemma iter_length: "iterates_sets it \<Longrightarrow> finite S \<Longrightarrow> length (it S) = card S"
  by (metis distinct_card iterates_sets_def)

lemma extract_patterns_length:
  "length (extract_patterns_from_change ev) \<le> length (added_lines (ev_changes ev))"
proof -
  have "length (extract_patterns_from_change ev) \<le>
        length (filter (\<lambda>line. strip line \<noteq> [] \<and> \<not> starts_with line ''!'' \<and> \<not> starts_with line ''#'')
             (added_lines (ev_changes ev)))"
    by (simp add: extract_patterns_from_change_def)
  also have "\<dots> \<le> length (added_lines (ev_changes ev))" by (rule length_filter_le)
  finally show ?thesis .
qed

text \<open>
  C10 (bounded sample). Every change event built by \<open>_detect_changes\<close> stores at most ten
  added and at most ten removed lines, while \<open>added_patterns\<close> and \<open>removed_patterns\<close>
  count all added and all removed lines; \<open>_extract_patterns_from_change\<close> therefore
  yields at most ten patterns for the event. With a set iteration that visits every
  element once, the stored lines are as many as the count allows (the smaller of ten
  and the count) and are taken from the delta.
\<close>

theorem change_event_sample:
  assumes "detect_changes e src old_content new_content = Some ev"
  shows "length (added_lines (ev_changes ev)) \<le> 10
       \<and> length (removed_lines (ev_changes ev)) \<le> 10
       \<and> added_patterns (ev_changes ev) =
           card (set (splitlines new_content)
                 - (if truthy old_content then set (splitlines (the old_content)) else {}))
       \<and> removed_patterns (ev_changes ev) =
           card ((if truthy old_content then set (splitlines (the old_content)) else {})
                 - set (splitlines new_content))
       \<and> length (extract_patterns_from_change ev) \<le> 10
       \<and> (iterates_sets (set_iter e) \<longrightarrow>
            length (added_lines (ev_changes ev)) = min 10 (added_patterns (ev_changes ev))
          \<and> length (removed_lines (ev_changes ev)) = min 10 (removed_patterns (ev_changes ev))
          \<and> set (added_lines (ev_changes ev)) \<subseteq> set (splitlines new_content)
          \<and> set (removed_lines (ev_changes ev)) \<inter> set (splitlines new_content) = {})"
proof -
  define old_lines where
    "old_lines = (if truthy old_content then set (splitlines (the old_content)) else {})"
  define new_lines where "new_lines = set (splitlines new_content)"
  have fin: "finite (new_lines - old_lines)" "finite (old_lines - new_lines)"
    by (simp_all add: old_lines_def new_lines_def)
  have ev: "ev_changes ev =
      \<lparr>added_patterns = card (new_lines - old_lines),
       removed_patterns = card (old_lines - new_lines),
       added_lines = take 10 (set_iter e (new_lines - old_lines)),
       removed_lines = take 10 (set_iter e (old_lines - new_lines)),
       total_lines = card new_lines\<rparr>"
    using assms
    by (auto simp: detect_changes_def Let_def old_lines_def new_lines_def split: if_splits)
  have a: "length (added_lines (ev_changes ev)) \<le> 10"
    and r: "length (removed_lines (ev_changes ev)) \<le> 10"
    by (simp_all add: ev)
  have x: "length (extract_patterns_from_change ev) \<le> 10"
    using extract_patterns_length[of ev] a by linarith
  have it: "length (added_lines (ev_changes ev)) = min 10 (added_patterns (ev_changes ev))
          \<and> length (removed_lines (ev_changes ev)) = min 10 (removed_patterns (ev_changes ev))
          \<and> set (added_lines (ev_changes ev)) \<subseteq> new_lines
          \<and> set (removed_lines (ev_changes ev)) \<inter> new_lines = {}"
    if i: "iterates_sets (set_iter e)"
  proof -
    have s1: "set (set_iter e (new_lines - old_lines)) = new_lines - old_lines"
      and s2: "set (set_iter e (old_lines - new_lines)) = old_lines - new_lines"
      using i fin by (simp_all add: iterates_sets_def)
    have "set (take 10 (set_iter e (new_lines - old_lines))) \<subseteq> new_lines"
      using set_take_subset[of 10 "set_iter e (new_lines - old_lines)"] s1 by auto
    moreover have "set (take 10 (set_iter e (old_lines - new_lines))) \<inter> new_lines = {}"
      using set_take_subset[of 10 "set_iter e (old_lines - new_lines)"] s2 by auto
    ultimately show ?thesis
      by (simp add: ev iter_length[OF i] fin min.commute)
  qed
  show ?thesis
    using a r x it by (simp add: ev old_lines_def[symmetric] new_lines_def[symmetric])
qed

lemma splitlines_eleven:
  "splitlines ''a\<newline>b\<newline>c\<newline>d\<newline>e\<newline>f\<newline>g\<newline>h\<newline>i\<newline>j\<newline>k'' =
     [''a'', ''b'', ''c'', ''d'', ''e'', ''f'', ''g'', ''h'', ''i'', ''j'', ''k'']"
  by (simp add: splitlines_def is_linebreak_def)

theorem change_event_sample_witness:
  "\<exists>ev. detect_changes example_detect_env example_source None
           ''a\<newline>b\<newline>c\<newline>d\<newline>e\<newline>f\<newline>g\<newline>h\<newline>i\<newline>j\<newline>k'' = Some ev
      \<and> iterates_sets (set_iter example_detect_env)
      \<and> added_patterns (ev_changes ev) = 11
      \<and> length (added_lines (ev_changes ev)) = 10
      \<and> removed_lines (ev_changes ev) = []
      \<and> length (extract_patterns_from_change ev) \<le> 10"
proof -
  let ?new = "''a\<newline>b\<newline>c\<newline>d\<newline>e\<newline>f\<newline>g\<newline>h\<newline>i\<newline>j\<newline>k''"
  have it: "iterates_sets (set_iter example_detect_env)"
    by (simp add: example_detect_env_def iterates_sorted)
  have "detect_changes example_detect_env example_source None ?new \<noteq> None"
    by (simp add: detect_changes_def Let_def splitlines_eleven)
  then obtain ev where
    ev: "detect_changes example_detect_env example_source None ?new = Some ev" by blast
  have d: "distinct (splitlines ?new)" by (simp add: splitlines_eleven)
  have c: "card (set (splitlines ?new) - {}) = 11"
    using distinct_card[OF d] by (simp add: splitlines_eleven)
  from change_event_sample[OF ev] it c ev show ?thesis
    by auto
qed

section \<open>Domain lookup\<close>

lemma contains_partition:
  "contains sep s \<Longrightarrow> \<exists>a b. py_partition sep s = Some (a, b)"
  by (induction s) (auto split: if_splits)

lemma split1_after:
  "contains sep s \<Longrightarrow> \<exists>b. py_index (split1 sep s) 1 = Inr b"
  using contains_partition[of sep s] by (auto simp: split1_def py_index_def)

lemma split1_before:
  "contains sep s \<Longrightarrow> \<exists>a. py_index (split1 sep s) 0 = Inr a"
  using contains_partition[of sep s] by (auto simp: split1_def py_index_def)

lemma extract_domain_body_total: "\<exists>d. extract_domain_body u = Inr d"
proof -
  obtain u1 where u1: "(if contains ''://'' u then py_index (split1 ''://'' u) 1 else Inr u) = Inr u1"
    using split1_after[of "''://''" u] by (cases "contains ''://'' u") auto
  obtain u2 where u2: "(if contains ''/'' u1 then py_index (split1 ''/'' u1) 0 else Inr u1) = Inr u2"
    using split1_before[of "''/''" u1] by (cases "contains ''/'' u1") auto
  show ?thesis
    unfolding extract_domain_body_def by (simp only: u1 u2 sum.case) simp
qed

lemma extract_base_domain_total: "\<exists>b. extract_base_domain d = Inr b"
proof -
  define d0 where "d0 = (if starts_with (strip (lower d)) ''www.'' then drop 4 (strip (lower d))
                         else strip (lower d))"
  obtain d1 where d1: "(if contains ''://'' d0 then py_index (split1 ''://'' d0) 1 else Inr d0) = Inr d1"
    using split1_after[of "''://''" d0] by (cases "contains ''://'' d0") auto
  obtain d2 where d2: "(if contains ''/'' d1 then py_index (split1 ''/'' d1) 0 else Inr d1) = Inr d2"
    using split1_before[of "''/''" d1] by (cases "contains ''/'' d1") auto
  show ?thesis
    unfolding extract_base_domain_def Let_def d0_def[symmetric]
    by (simp only: d1 d2 sum.case) simp
qed

text \<open>
  C9 (lookup on any URL). For every URL string, \<open>fast_domain_lookup\<close> returns without
  raising: none of the subscripts in \<open>_extract_domain_from_url\<close> and
  \<open>_extract_base_domain\<close> can fail. The result is \<open>None\<close> or an entry stored in the
  domain index, and it is \<open>None\<close> whenever no domain can be extracted from the URL (the
  extracted domain is the empty string). The index itself is not changed; only the
  lookup counter grows.
\<close>

theorem lookup_never_raises:
  "\<exists>r eng'.
     fast_domain_lookup eng u = Inr (r, eng')
   \<and> (r = None \<or> (\<exists>k entry. domain_index eng k = Some entry \<and> r = Some entry))
   \<and> (extract_domain_from_url u = [] \<longrightarrow> r = None)
   \<and> domain_index eng' = domain_index eng
   \<and> total_lookups (stats eng') = total_lookups (stats eng) + 1"
proof (cases "extract_domain_from_url u = []")
  case True
  then show ?thesis by (simp add: fast_domain_lookup_def)
next
  case False
  obtain b where b: "extract_base_domain (extract_domain_from_url u) = Inr b"
    using extract_base_domain_total by blast
  show ?thesis
  proof (cases "domain_index eng b")
    case None
    with False b show ?thesis by (simp add: fast_domain_lookup_def Let_def)
  next
    case (Some entry)
    with False b show ?thesis by (auto simp: fast_domain_lookup_def Let_def)
  qed
qed

lemma example_no_domain: "extract_domain_from_url ''http:///pixel.gif'' = []"
  by (simp add: extract_domain_from_url_def extract_domain_body_def starts_with_def
      split1_def py_index_def lower_def)

lemma example_lower:
  "lower ''www.Example.com'' = ''www.example.com''"
  "lower ''www.example.com'' = ''www.example.com''"
  by code_simp+

lemma example_hit:
  "\<exists>eng'. fast_domain_lookup example_engine ''HTTPS://www.Example.com/a.gif?u=1'' =
     Inr (domain_index example_engine ''example.com'', eng')"
  by (simp add: fast_domain_lookup_def extract_domain_from_url_def extract_domain_body_def
      extract_base_domain_def starts_with_def split1_def py_index_def example_lower
      strip_def isspace_def example_engine_def Let_def)

text \<open>
  A URL with an empty host yields \<open>None\<close>; a URL with scheme, \<open>www.\<close> prefix, capital
  letters and a path finds the entry of its base domain.
\<close>

theorem lookup_never_raises_witness:
  "extract_domain_from_url ''http:///pixel.gif'' = []
   \<and> (\<exists>eng'. fast_domain_lookup example_engine ''http:///pixel.gif'' = Inr (None, eng'))
   \<and> (\<exists>eng'. fast_domain_lookup example_engine ''HTTPS://www.Example.com/a.gif?u=1'' =
              Inr (domain_index example_engine ''example.com'', eng'))
   \<and> domain_index example_engine ''example.com'' \<noteq> None"
  using lookup_never_raises[of example_engine "''http:///pixel.gif''"] example_no_domain
    example_hit
  by (auto simp: example_engine_def)

end
